theory Spec2Isabelle
  imports Main
begin

section \<open>Python values\<close>

text \<open>
  The runner \<^verbatim>\<open>scripts/mcp_long_runner.py\<close> handles decoded JSON: mappings, lists,
  strings, integers, booleans and \<^verbatim>\<open>None\<close>. A Python \<^verbatim>\<open>dict\<close> keeps its insertion order,
  so a mapping is an association list. JSON numbers are integers here (a number with a
  fraction or an exponent decodes to a Python float, which this development leaves
  out). A \<^typ>\<open>char\<close> stands for one character of a Python \<^verbatim>\<open>str\<close>; the Chinese literals
  of the source are spelled by their UTF-8 bytes and are never measured or sliced.
\<close>

datatype json =
    JNull
  | JBool bool
  | JInt int
  | JStr string
  | JList "json list"
  | JDict "(string \<times> json) list"

type_synonym pydict = "(string \<times> json) list"

text \<open>\<^verbatim>\<open>d.get(k)\<close>, \<^verbatim>\<open>d.get(k, default)\<close>, \<^verbatim>\<open>k in d\<close>, \<^verbatim>\<open>d[k] = v\<close> and \<^verbatim>\<open>d.update(...)\<close>.\<close>

definition dict_get :: "pydict \<Rightarrow> string \<Rightarrow> json \<Rightarrow> json" where
  "dict_get d k dflt = (case map_of d k of None \<Rightarrow> dflt | Some v \<Rightarrow> v)"

definition dict_has :: "pydict \<Rightarrow> string \<Rightarrow> bool" where
  "dict_has d k = (map_of d k \<noteq> None)"

fun dict_set :: "pydict \<Rightarrow> string \<Rightarrow> json \<Rightarrow> pydict" where
  "dict_set [] k v = [(k, v)]"
| "dict_set ((k', v') # d) k v = (if k' = k then (k, v) # d else (k', v') # dict_set d k v)"

fun dict_update :: "pydict \<Rightarrow> pydict \<Rightarrow> pydict" where
  "dict_update d [] = d"
| "dict_update d ((k, v) # kvs) = dict_update (dict_set d k v) kvs"

text \<open>Truth value of an object, as \<^verbatim>\<open>if x:\<close> and \<^verbatim>\<open>bool(x)\<close> take it.\<close>

fun truthy :: "json \<Rightarrow> bool" where
  "truthy JNull = False"
| "truthy (JBool b) = b"
| "truthy (JInt i) = (i \<noteq> 0)"
| "truthy (JStr s) = (s \<noteq> [])"
| "truthy (JList xs) = (xs \<noteq> [])"
| "truthy (JDict d) = (d \<noteq> [])"

text \<open>
  \<^verbatim>\<open>x != n\<close> for an integer \<^verbatim>\<open>n\<close>: Python compares numbers by value, and \<^verbatim>\<open>True\<close> and
  \<^verbatim>\<open>False\<close> are the integers 1 and 0.
\<close>

fun py_eq_int :: "json \<Rightarrow> int \<Rightarrow> bool" where
  "py_eq_int (JInt i) n = (i = n)"
| "py_eq_int (JBool b) n = ((if b then 1 else 0) = n)"
| "py_eq_int _ n = False"

subsection \<open>Strings\<close>

definition isspace :: "char \<Rightarrow> bool" where
  "isspace c = (c \<in> {CHR 0x09, CHR 0x0A, CHR 0x0B, CHR 0x0C, CHR 0x0D,
                      CHR 0x1C, CHR 0x1D, CHR 0x1E, CHR 0x1F, CHR 0x20, CHR 0x85, CHR 0xA0})"

definition strip :: "string \<Rightarrow> string" where
  "strip s = rev (dropWhile isspace (rev (dropWhile isspace s)))"

text \<open>\<^verbatim>\<open>str.lower\<close> on the ASCII letters; other characters are kept.\<close>

definition lower_char :: "char \<Rightarrow> char" where
  "lower_char c =
     (case map_of (zip ''ABCDEFGHIJKLMNOPQRSTUVWXYZ'' ''abcdefghijklmnopqrstuvwxyz'') c of
        Some l \<Rightarrow> l
      | None \<Rightarrow> c)"

definition lower :: "string \<Rightarrow> string" where
  "lower s = map lower_char s"

text \<open>\<^verbatim>\<open>str(n)\<close> for an integer: its decimal digits, with a minus sign when negative.\<close>

definition digit_char :: "nat \<Rightarrow> char" where
  "digit_char d = ''0123456789'' ! d"

function str_nat :: "nat \<Rightarrow> string" where
  "str_nat n = (if n < 10 then [digit_char n] else str_nat (n div 10) @ [digit_char (n mod 10)])"
  by pat_completeness auto
termination
  by (relation "measure id") auto

definition str_int :: "int \<Rightarrow> string" where
  "str_int i = (if i < 0 then CHR ''-'' # str_nat (nat (- i)) else str_nat (nat i))"

definition quoted :: "string \<Rightarrow> string" where
  "quoted s = CHR 0x27 # s @ [CHR 0x27]"

subsection \<open>The library and the exceptions\<close>

text \<open>
  The \<^verbatim>\<open>json\<close> module and \<^verbatim>\<open>str()\<close> of a list or a mapping are library code. They are
  parameters of the development: \<open>loads\<close> returns the decoded value or the message of
  the \<^verbatim>\<open>JSONDecodeError\<close> it raises, \<open>dumps\<close> is \<^verbatim>\<open>json.dumps(_, ensure_ascii=False)\<close>,
  \<open>repr_of\<close> is \<^verbatim>\<open>str()\<close> of a list or mapping.
\<close>

record pylib =
  loads :: "string \<Rightarrow> string + json"
  dumps :: "json \<Rightarrow> string"
  repr_of :: "json \<Rightarrow> string"

fun py_str :: "pylib \<Rightarrow> json \<Rightarrow> string" where
  "py_str L (JStr s) = s"
| "py_str L JNull = ''None''"
| "py_str L (JBool b) = (if b then ''True'' else ''False'')"
| "py_str L (JInt i) = str_int i"
| "py_str L v = repr_of L v"

datatype py_error =
    RuntimeError json
  | TimeoutError string
  | JSONDecodeError string
  | AttributeError string string
  | TypeError string
  | BrokenPipeError
  | KeyError string
  | IndexError

fun type_name :: "json \<Rightarrow> string" where
  "type_name JNull = ''NoneType''"
| "type_name (JBool b) = ''bool''"
| "type_name (JInt i) = ''int''"
| "type_name (JStr s) = ''str''"
| "type_name (JList xs) = ''list''"
| "type_name (JDict d) = ''dict''"

text \<open>\<^verbatim>\<open>str(ex)\<close>.\<close>

fun str_exc :: "pylib \<Rightarrow> py_error \<Rightarrow> string" where
  "str_exc L (RuntimeError v) = py_str L v"
| "str_exc L (TimeoutError m) = m"
| "str_exc L (JSONDecodeError m) = m"
| "str_exc L (AttributeError ty a) = quoted ty @ '' object has no attribute '' @ quoted a"
| "str_exc L (TypeError m) = m"
| "str_exc L BrokenPipeError = ''[Errno 32] Broken pipe''"
| "str_exc L (KeyError k) = quoted k"
| "str_exc L IndexError = ''list index out of range''"

text \<open>\<^verbatim>\<open>x.get(k, default)\<close> on any decoded value: only a mapping has the method.\<close>

fun attr_get :: "json \<Rightarrow> string \<Rightarrow> json \<Rightarrow> py_error + json" where
  "attr_get (JDict d) k dflt = Inr (dict_get d k dflt)"
| "attr_get v k dflt = Inl (AttributeError (type_name v) ''get'')"

section \<open>The RPC session\<close>

text \<open>
  What the child process does while a call waits is a list of events, one per turn of
  the loop of \<^verbatim>\<open>MCPClient._rpc\<close>: the clock has passed the deadline at the loop head
  (\<open>Expired\<close>), \<^verbatim>\<open>select\<close> returns nothing before the deadline (\<open>Idle\<close>), \<^verbatim>\<open>poll()\<close> reports
  that the child has exited, with the content of its stderr and its return code
  (\<open>Exit\<close>), or \<^verbatim>\<open>readline()\<close> returns a line (\<open>Line\<close>, the empty string at end of file).
  When the list is exhausted nothing more happens before the deadline.
\<close>

datatype tick = Expired | Idle | Exit string int | Line string

record MCPClient =
  request_id :: int
  proc_stdin :: "string list"
  proc_stdout :: "tick list"
  proc_exited :: bool

definition new_client :: "tick list \<Rightarrow> MCPClient" where
  "new_client ts = \<lparr>request_id = 1, proc_stdin = [], proc_stdout = ts, proc_exited = False\<rparr>"

text \<open>\<^verbatim>\<open>RuntimeError(stderr_text or f"codeblog-mcp exited {self.proc.returncode}")\<close>.\<close>

definition exit_error :: "string \<Rightarrow> int \<Rightarrow> py_error" where
  "exit_error stderr_text rc =
     RuntimeError (JStr (if strip stderr_text \<noteq> [] then strip stderr_text
                         else ''codeblog-mcp exited '' @ str_int rc))"

text \<open>
  The loop of \<^verbatim>\<open>_rpc\<close>. It returns the outcome, the events left for later calls and
  whether the child is known to have exited.
\<close>

fun rpc_loop :: "pylib \<Rightarrow> int \<Rightarrow> string \<Rightarrow> tick list \<Rightarrow> (py_error + json) \<times> tick list \<times> bool" where
  "rpc_loop L req_id tmsg [] = (Inl (TimeoutError tmsg), [], False)"
| "rpc_loop L req_id tmsg (Expired # ts) = (Inl (TimeoutError tmsg), ts, False)"
| "rpc_loop L req_id tmsg (Idle # ts) = (Inl (TimeoutError tmsg), ts, False)"
| "rpc_loop L req_id tmsg (Exit stderr_text rc # ts) = (Inl (exit_error stderr_text rc), ts, True)"
| "rpc_loop L req_id tmsg (Line line # ts) =
     (if line = [] then rpc_loop L req_id tmsg ts
      else case loads L (strip line) of
        Inl m \<Rightarrow> (Inl (JSONDecodeError m), ts, False)
      | Inr (JDict payload) \<Rightarrow>
          if \<not> py_eq_int (dict_get payload ''id'' JNull) req_id then rpc_loop L req_id tmsg ts
          else if dict_has payload ''error''
          then (case attr_get (dict_get payload ''error'' JNull) ''message'' (JStr ''unknown mcp error'') of
                  Inl e \<Rightarrow> (Inl e, ts, False)
                | Inr m \<Rightarrow> (Inl (RuntimeError m), ts, False))
          else (Inr (dict_get payload ''result'' (JDict [])), ts, False)
      | Inr v \<Rightarrow> (Inl (AttributeError (type_name v) ''get''), ts, False))"

text \<open>
  \<^verbatim>\<open>_rpc\<close>: the request id is taken and advanced, the request is written to the child's
  stdin, then the loop waits. The child was spawned by \<^verbatim>\<open>start\<close>; a write into the pipe of
  a child that has exited raises \<^verbatim>\<open>BrokenPipeError\<close>.
\<close>

definition request :: "int \<Rightarrow> string \<Rightarrow> pydict \<Rightarrow> json" where
  "request req_id method params =
     JDict [(''jsonrpc'', JStr ''2.0''), (''id'', JInt req_id), (''method'', JStr method),
            (''params'', JDict params)]"

definition timeout_message :: "pylib \<Rightarrow> string \<Rightarrow> pydict \<Rightarrow> int \<Rightarrow> string" where
  "timeout_message L method params timeout_sec =
     ''tool='' @ py_str L (dict_get params ''name'' (JStr method)) @ '' timed out after ''
       @ str_int timeout_sec @ ''s''"

definition rpc :: "pylib \<Rightarrow> string \<Rightarrow> pydict \<Rightarrow> int \<Rightarrow> MCPClient \<Rightarrow> (py_error + json) \<times> MCPClient" where
  "rpc L method params timeout_sec c =
     (let req_id = request_id c;
          c1 = c\<lparr>request_id := req_id + 1\<rparr>
      in if proc_exited c1 then (Inl BrokenPipeError, c1)
         else
           let c2 = c1\<lparr>proc_stdin := proc_stdin c1 @ [dumps L (request req_id method params) @ [CHR 0x0A]]\<rparr>;
               (r, rest, gone) = rpc_loop L req_id (timeout_message L method params timeout_sec) (proc_stdout c2)
           in (r, c2\<lparr>proc_stdout := rest, proc_exited := gone\<rparr>))"

definition call_tool :: "pylib \<Rightarrow> string \<Rightarrow> pydict \<Rightarrow> MCPClient \<Rightarrow> (py_error + json) \<times> MCPClient" where
  "call_tool L name arguments c =
     rpc L ''tools/call'' [(''name'', JStr name), (''arguments'', JDict arguments)] 90 c"



section \<open>Masking\<close>

text \<open>
  \<^verbatim>\<open>mask_payload\<close> and its local function \<^verbatim>\<open>_mask\<close>, which walks mappings and lists.
  The key of a list is handed down to its elements.
\<close>

fun mask_value :: "json \<Rightarrow> string \<Rightarrow> json"
  and mask_items :: "pydict \<Rightarrow> pydict"
  and mask_elems :: "json list \<Rightarrow> string \<Rightarrow> json list" where
  "mask_value v key =
     (let low = lower key in
      if low \<in> {''password'', ''api_key'', ''apikey'', ''token''} then JStr ''***''
      else if low = ''stats'' then JStr ''[stats_json]''
      else (case v of
              JDict d \<Rightarrow> JDict (mask_items d)
            | JList xs \<Rightarrow> JList (mask_elems xs key)
            | JStr s \<Rightarrow> if length s > 600 then JStr (take 600 s @ ''...(truncated)'') else v
            | _ \<Rightarrow> v))"
| "mask_items [] = []"
| "mask_items ((k, v) # d) = (k, mask_value v k) # mask_items d"
| "mask_elems [] key = []"
| "mask_elems (v # xs) key = mask_value v key # mask_elems xs key"

definition mask_payload :: "json \<Rightarrow> json" where
  "mask_payload payload = mask_value payload []"

section \<open>Reading a tool result\<close>

text \<open>\<^verbatim>\<open>for entry in x\<close>: a list gives its elements, a mapping its keys, a string its characters.\<close>

fun iterate :: "json \<Rightarrow> py_error + json list" where
  "iterate (JList xs) = Inr xs"
| "iterate (JDict d) = Inr (map (\<lambda>kv. JStr (fst kv)) d)"
| "iterate (JStr s) = Inr (map (\<lambda>c. JStr [c]) s)"
| "iterate v = Inl (TypeError (quoted (type_name v) @ '' object is not iterable''))"

fun text_chunks :: "pylib \<Rightarrow> json list \<Rightarrow> py_error + string list" where
  "text_chunks L [] = Inr []"
| "text_chunks L (JDict entry # es) =
     (case text_chunks L es of
        Inl e \<Rightarrow> Inl e
      | Inr chunks \<Rightarrow>
          if dict_get entry ''type'' JNull = JStr ''text'' \<and> truthy (dict_get entry ''text'' JNull)
          then Inr (py_str L (dict_get entry ''text'' JNull) # chunks)
          else Inr chunks)"
| "text_chunks L (v # es) = Inl (AttributeError (type_name v) ''get'')"

fun join :: "string \<Rightarrow> string list \<Rightarrow> string" where
  "join sep [] = []"
| "join sep [x] = x"
| "join sep (x # y # ys) = x @ sep @ join sep (y # ys)"

definition extract_text :: "pylib \<Rightarrow> json \<Rightarrow> py_error + string" where
  "extract_text L result =
     (case attr_get result ''content'' (JList []) of
        Inl e \<Rightarrow> Inl e
      | Inr content \<Rightarrow>
          (case iterate content of
             Inl e \<Rightarrow> Inl e
           | Inr entries \<Rightarrow>
               (case text_chunks L entries of
                  Inl e \<Rightarrow> Inl e
                | Inr chunks \<Rightarrow> Inr (strip (join [CHR 0x0A] chunks)))))"

text \<open>
  \<^verbatim>\<open>re.search(r"\[preview_id:\s*([^\]]+)\]", text)\<close>: at the leftmost place where the
  literal stands, followed by at least one character other than \<^verbatim>\<open>]\<close> and then a \<^verbatim>\<open>]\<close>,
  the group is what follows the leading white space; when there is only white space the
  group is its last character. The result is the group, stripped.
\<close>

fun parse_preview_id :: "string \<Rightarrow> string" where
  "parse_preview_id [] = []"
| "parse_preview_id (c # cs) =
     (let r = drop 12 (c # cs); body = takeWhile (\<lambda>x. x \<noteq> CHR '']'') r in
      if take 12 (c # cs) = ''[preview_id:'' \<and> body \<noteq> [] \<and> length body < length r
      then (if dropWhile isspace body \<noteq> [] then strip (dropWhile isspace body) else strip [last body])
      else parse_preview_id cs)"

text \<open>
  \<^verbatim>\<open>re.search(r"/post/([a-z0-9]+)", text, re.IGNORECASE)\<close>: the letters and digits that
  follow the leftmost \<^verbatim>\<open>/post/\<close> (in any case) that has one.
\<close>

definition alnum :: "char \<Rightarrow> bool" where
  "alnum c = (c \<in> set ''abcdefghijklmnopqrstuvwxyzABCDEFGHIJKLMNOPQRSTUVWXYZ0123456789'')"

fun parse_post_id :: "string \<Rightarrow> string" where
  "parse_post_id [] = []"
| "parse_post_id (c # cs) =
     (if lower (take 6 (c # cs)) = ''/post/'' \<and> takeWhile alnum (drop 6 (c # cs)) \<noteq> []
      then strip (takeWhile alnum (drop 6 (c # cs)))
      else parse_post_id cs)"

section \<open>The result recorder\<close>

text \<open>
  A CSV file is the list of rows \<^verbatim>\<open>csv.reader\<close> reads from it; \<^verbatim>\<open>csv.writer\<close> writes rows
  that read back as they were. Both files exist.
\<close>

type_synonym table = "string list list"

definition append_run_log :: "table \<Rightarrow> string list \<Rightarrow> table" where
  "append_run_log log row = log @ [row]"

text \<open>The cells and the column names of the tracking matrix.\<close>

definition cell_yes :: string where \<comment> \<open>U+662F\<close>
  "cell_yes = [CHR 0xE6, CHR 0x98, CHR 0xAF]"

definition cell_no :: string where \<comment> \<open>U+5426\<close>
  "cell_no = [CHR 0xE5, CHR 0x90, CHR 0xA6]"

definition passed_text :: string where \<comment> \<open>U+901A U+8FC7\<close>
  "passed_text = [CHR 0xE9, CHR 0x80, CHR 0x9A, CHR 0xE8, CHR 0xBF, CHR 0x87]"

definition failed_text :: string where \<comment> \<open>U+5931 U+8D25\<close>
  "failed_text = [CHR 0xE5, CHR 0xA4, CHR 0xB1, CHR 0xE8, CHR 0xB4, CHR 0xA5]"

definition col_tool :: string where \<comment> \<open>U+5DE5 U+5177 U+540D: tool name\<close>
  "col_tool = [CHR 0xE5, CHR 0xB7, CHR 0xA5, CHR 0xE5, CHR 0x85, CHR 0xB7, CHR 0xE5, CHR 0x90, CHR 0x8D]"

definition col_integrated :: string where \<comment> \<open>U+5BA2 U+6237 U+7AEF U+5DF2 U+63A5 U+5165\<close>
  "col_integrated = [CHR 0xE5, CHR 0xAE, CHR 0xA2, CHR 0xE6, CHR 0x88, CHR 0xB7, CHR 0xE7, CHR 0xAB, CHR 0xAF, CHR 0xE5, CHR 0xB7, CHR 0xB2, CHR 0xE6, CHR 0x8E, CHR 0xA5, CHR 0xE5, CHR 0x85, CHR 0xA5]"

definition col_mcp_pass :: string where \<comment> \<open>MCP U+8C03 U+7528 U+901A U+8FC7\<close>
  "col_mcp_pass = ''MCP'' @ [CHR 0xE8, CHR 0xB0, CHR 0x83, CHR 0xE7, CHR 0x94, CHR 0xA8, CHR 0xE9, CHR 0x80, CHR 0x9A, CHR 0xE8, CHR 0xBF, CHR 0x87]"

definition col_dialogue_pass :: string where \<comment> \<open>U+5BF9 U+8BDD U+89E6 U+53D1 U+901A U+8FC7\<close>
  "col_dialogue_pass = [CHR 0xE5, CHR 0xAF, CHR 0xB9, CHR 0xE8, CHR 0xAF, CHR 0x9D, CHR 0xE8, CHR 0xA7, CHR 0xA6, CHR 0xE5, CHR 0x8F, CHR 0x91, CHR 0xE9, CHR 0x80, CHR 0x9A, CHR 0xE8, CHR 0xBF, CHR 0x87]"

definition col_capsule_start :: string where \<comment> \<open>U+80F6 U+56CA U+5F00 U+59CB U+6001 U+6B63 U+5E38\<close>
  "col_capsule_start = [CHR 0xE8, CHR 0x83, CHR 0xB6, CHR 0xE5, CHR 0x9B, CHR 0x8A, CHR 0xE5, CHR 0xBC, CHR 0x80, CHR 0xE5, CHR 0xA7, CHR 0x8B, CHR 0xE6, CHR 0x80, CHR 0x81, CHR 0xE6, CHR 0xAD, CHR 0xA3, CHR 0xE5, CHR 0xB8, CHR 0xB8]"

definition col_capsule_end :: string where \<comment> \<open>U+80F6 U+56CA U+7ED3 U+675F U+6001 U+6B63 U+5E38\<close>
  "col_capsule_end = [CHR 0xE8, CHR 0x83, CHR 0xB6, CHR 0xE5, CHR 0x9B, CHR 0x8A, CHR 0xE7, CHR 0xBB, CHR 0x93, CHR 0xE6, CHR 0x9D, CHR 0x9F, CHR 0xE6, CHR 0x80, CHR 0x81, CHR 0xE6, CHR 0xAD, CHR 0xA3, CHR 0xE5, CHR 0xB8, CHR 0xB8]"

definition col_error_visible :: string where \<comment> \<open>U+9519 U+8BEF U+6001 U+53EF U+89C1\<close>
  "col_error_visible = [CHR 0xE9, CHR 0x94, CHR 0x99, CHR 0xE8, CHR 0xAF, CHR 0xAF, CHR 0xE6, CHR 0x80, CHR 0x81, CHR 0xE5, CHR 0x8F, CHR 0xAF, CHR 0xE8, CHR 0xA7, CHR 0x81]"

definition col_run_id :: string where \<comment> \<open>U+6700 U+8FD1 RunID\<close>
  "col_run_id = [CHR 0xE6, CHR 0x9C, CHR 0x80, CHR 0xE8, CHR 0xBF, CHR 0x91] @ ''RunID''"

definition col_result :: string where \<comment> \<open>U+6700 U+8FD1 U+7ED3 U+679C\<close>
  "col_result = [CHR 0xE6, CHR 0x9C, CHR 0x80, CHR 0xE8, CHR 0xBF, CHR 0x91, CHR 0xE7, CHR 0xBB, CHR 0x93, CHR 0xE6, CHR 0x9E, CHR 0x9C]"

definition col_issue :: string where \<comment> \<open>U+53D1 U+73B0 U+95EE U+9898\<close>
  "col_issue = [CHR 0xE5, CHR 0x8F, CHR 0x91, CHR 0xE7, CHR 0x8E, CHR 0xB0, CHR 0xE9, CHR 0x97, CHR 0xAE, CHR 0xE9, CHR 0xA2, CHR 0x98]"

definition col_root_cause :: string where \<comment> \<open>U+6839 U+56E0 U+5206 U+6790\<close>
  "col_root_cause = [CHR 0xE6, CHR 0xA0, CHR 0xB9, CHR 0xE5, CHR 0x9B, CHR 0xA0, CHR 0xE5, CHR 0x88, CHR 0x86, CHR 0xE6, CHR 0x9E, CHR 0x90]"

definition col_fix :: string where \<comment> \<open>U+4FEE U+590D U+52A8 U+4F5C\<close>
  "col_fix = [CHR 0xE4, CHR 0xBF, CHR 0xAE, CHR 0xE5, CHR 0xA4, CHR 0x8D, CHR 0xE5, CHR 0x8A, CHR 0xA8, CHR 0xE4, CHR 0xBD, CHR 0x9C]"

definition col_retest :: string where \<comment> \<open>U+4FEE U+590D U+540E U+590D U+6D4B\<close>
  "col_retest = [CHR 0xE4, CHR 0xBF, CHR 0xAE, CHR 0xE5, CHR 0xA4, CHR 0x8D, CHR 0xE5, CHR 0x90, CHR 0x8E, CHR 0xE5, CHR 0xA4, CHR 0x8D, CHR 0xE6, CHR 0xB5, CHR 0x8B]"

definition col_updated :: string where \<comment> \<open>U+6700 U+540E U+66F4 U+65B0 U+65F6 U+95F4: last update time\<close>
  "col_updated = [CHR 0xE6, CHR 0x9C, CHR 0x80, CHR 0xE5, CHR 0x90, CHR 0x8E, CHR 0xE6, CHR 0x9B, CHR 0xB4, CHR 0xE6, CHR 0x96, CHR 0xB0, CHR 0xE6, CHR 0x97, CHR 0xB6, CHR 0xE9, CHR 0x97, CHR 0xB4]"

text \<open>\<^verbatim>\<open>idx = {name: i for i, name in enumerate(header)}\<close>: a later column of the same name wins.\<close>

definition idx :: "string list \<Rightarrow> string \<Rightarrow> nat option" where
  "idx header = foldl (\<lambda>m (i, name). m(name \<mapsto> i)) Map.empty (enumerate 0 header)"

definition and_then :: "'e + 'a \<Rightarrow> ('a \<Rightarrow> 'e + 'b) \<Rightarrow> 'e + 'b" where
  "and_then r f = (case r of Inl e \<Rightarrow> Inl e | Inr x \<Rightarrow> f x)"

text \<open>\<^verbatim>\<open>row[idx[name]]\<close> and \<^verbatim>\<open>row[idx[name]] = v\<close>, with the \<^verbatim>\<open>KeyError\<close> and \<^verbatim>\<open>IndexError\<close> they raise.\<close>

definition get_col :: "string list \<Rightarrow> string \<Rightarrow> string list \<Rightarrow> py_error + string" where
  "get_col header name row =
     (case idx header name of
        None \<Rightarrow> Inl (KeyError name)
      | Some i \<Rightarrow> if i < length row then Inr (row ! i) else Inl IndexError)"

definition set_col :: "string list \<Rightarrow> string \<Rightarrow> string \<Rightarrow> string list \<Rightarrow> py_error + string list" where
  "set_col header name v row =
     (case idx header name of
        None \<Rightarrow> Inl (KeyError name)
      | Some i \<Rightarrow> if i < length row then Inr (row[i := v]) else Inl IndexError)"

text \<open>The assignments of \<^verbatim>\<open>update_matrix\<close> to the row it found, in the order of the source.\<close>

definition update_row ::
  "string list \<Rightarrow> string \<Rightarrow> bool \<Rightarrow> string \<Rightarrow> string \<Rightarrow> string \<Rightarrow> string \<Rightarrow> string \<Rightarrow> string list
     \<Rightarrow> py_error + string list" where
  "update_row header run_id passed issue root_cause fix retest now row =
     and_then (set_col header col_integrated cell_yes row) (\<lambda>row.
     and_then (set_col header col_mcp_pass (if passed then cell_yes else cell_no) row) (\<lambda>row.
     and_then (set_col header col_dialogue_pass (if passed then cell_yes else cell_no) row) (\<lambda>row.
     and_then (set_col header col_capsule_start (if passed then cell_yes else cell_no) row) (\<lambda>row.
     and_then (set_col header col_capsule_end (if passed then cell_yes else cell_no) row) (\<lambda>row.
     and_then (if \<not> passed \<and> (issue \<noteq> [] \<or> root_cause \<noteq> []) then Inr cell_yes
               else and_then (get_col header col_error_visible row)
                      (\<lambda>old. Inr (if old \<noteq> [] then old else cell_yes))) (\<lambda>visible.
     and_then (set_col header col_error_visible visible row) (\<lambda>row.
     and_then (set_col header col_run_id run_id row) (\<lambda>row.
     and_then (set_col header col_result (if passed then passed_text else failed_text) row) (\<lambda>row.
     and_then (set_col header col_issue issue row) (\<lambda>row.
     and_then (set_col header col_root_cause root_cause row) (\<lambda>row.
     and_then (set_col header col_fix fix row) (\<lambda>row.
     and_then (set_col header col_retest retest row) (\<lambda>row.
     set_col header col_updated now row)))))))))))))"

text \<open>The loop over the data rows: the first row of the tool is updated, then \<^verbatim>\<open>break\<close>.\<close>

fun update_rows ::
  "string list \<Rightarrow> string \<Rightarrow> string \<Rightarrow> bool \<Rightarrow> string \<Rightarrow> string \<Rightarrow> string \<Rightarrow> string \<Rightarrow> string
     \<Rightarrow> table \<Rightarrow> py_error + table" where
  "update_rows header tool run_id passed issue root_cause fix retest now [] = Inr []"
| "update_rows header tool run_id passed issue root_cause fix retest now (row # rows) =
     and_then (get_col header col_tool row) (\<lambda>name.
       if name \<noteq> tool
       then and_then (update_rows header tool run_id passed issue root_cause fix retest now rows)
              (\<lambda>rows'. Inr (row # rows'))
       else and_then (update_row header run_id passed issue root_cause fix retest now row)
              (\<lambda>row'. Inr (row' # rows)))"

text \<open>
  \<^verbatim>\<open>update_matrix\<close>: the table is read, \<^verbatim>\<open>rows[0]\<close> is the header, and the whole table is
  written back. \<open>now\<close> is the value of \<^verbatim>\<open>now_iso()\<close>. An exception leaves the file as it was.
\<close>

definition update_matrix ::
  "table \<Rightarrow> string \<Rightarrow> string \<Rightarrow> bool \<Rightarrow> string \<Rightarrow> string \<Rightarrow> string \<Rightarrow> string \<Rightarrow> string
     \<Rightarrow> py_error + table" where
  "update_matrix rows tool run_id passed issue root_cause fix retest now =
     (case rows of
        [] \<Rightarrow> Inl IndexError
      | header # data \<Rightarrow>
          and_then (update_rows header tool run_id passed issue root_cause fix retest now data)
            (\<lambda>data'. Inr (header # data')))"

section \<open>Statements about the tracking matrix\<close>

text \<open>The columns \<^verbatim>\<open>update_matrix\<close> assigns, in the order of its assignments.\<close>

definition status_columns :: "string list" where
  "status_columns =
     [col_integrated, col_mcp_pass, col_dialogue_pass, col_capsule_start, col_capsule_end,
      col_error_visible, col_run_id, col_result, col_issue, col_root_cause, col_fix, col_retest,
      col_updated]"

text \<open>
  A matrix that \<^verbatim>\<open>update_matrix\<close> can work on: it has a header with the key column and
  the columns above, and every data row is as long as the header.
\<close>

definition matrix_ok :: "table \<Rightarrow> bool" where
  "matrix_ok rows =
     (case rows of
        [] \<Rightarrow> False
      | header # data \<Rightarrow>
          list_all (\<lambda>c. c \<in> set header) (col_tool # status_columns)
          \<and> list_all (\<lambda>row. length row = length header) data)"

text \<open>A row whose key cell can be read and names another operation than \<open>tool\<close>.\<close>

definition other_tool :: "string list \<Rightarrow> string \<Rightarrow> string list \<Rightarrow> bool" where
  "other_tool header tool row =
     (case get_col header col_tool row of Inr name \<Rightarrow> name \<noteq> tool | Inl e \<Rightarrow> False)"

text \<open>
  The cells one update writes whatever the row held: each column with its value. The
  error-visible cell, which depends on what the row held, is \<open>visible_cell\<close> of the old cell.
\<close>

definition written_cells ::
  "string \<Rightarrow> bool \<Rightarrow> string \<Rightarrow> string \<Rightarrow> string \<Rightarrow> string \<Rightarrow> string \<Rightarrow> (string \<times> string) list" where
  "written_cells run_id passed issue root_cause fix retest now =
     [(col_integrated, cell_yes),
      (col_mcp_pass, if passed then cell_yes else cell_no),
      (col_dialogue_pass, if passed then cell_yes else cell_no),
      (col_capsule_start, if passed then cell_yes else cell_no),
      (col_capsule_end, if passed then cell_yes else cell_no),
      (col_run_id, run_id),
      (col_result, if passed then passed_text else failed_text),
      (col_issue, issue),
      (col_root_cause, root_cause),
      (col_fix, fix),
      (col_retest, retest),
      (col_updated, now)]"

definition visible_cell :: "bool \<Rightarrow> string \<Rightarrow> string \<Rightarrow> string \<Rightarrow> string" where
  "visible_cell passed issue root_cause old =
     (if \<not> passed \<and> (issue \<noteq> [] \<or> root_cause \<noteq> []) then cell_yes
      else if old \<noteq> [] then old else cell_yes)"

text \<open>An example matrix: the key column, a column the runner does not know, and the status columns.\<close>

definition demo_header :: "string list" where
  "demo_header = col_tool # ''owner'' # status_columns"

definition demo_matrix :: table where
  "demo_matrix =
     [demo_header,
      ''scan_sessions'' # ''qa'' # replicate 13 [],
      ''read_session'' # ''qa'' # replicate 13 []]"

section \<open>The scenario runner\<close>

text \<open>The catalog \<^verbatim>\<open>TOOLS\<close>: the name, the argument template and the label of every operation.\<close>

definition TOOLS :: "(string \<times> pydict \<times> string) list" where
  "TOOLS = [
    (''scan_sessions'', [(''limit'', JInt 5)],
       [CHR 0xE6, CHR 0x89, CHR 0xAB, CHR 0xE6, CHR 0x8F, CHR 0x8F, CHR 0xE6, CHR 0x9C, CHR 0x80, CHR 0xE8, CHR 0xBF, CHR 0x91, CHR 0xE4, CHR 0xBC, CHR 0x9A, CHR 0xE8, CHR 0xAF, CHR 0x9D]),
    (''read_session'', [],
       [CHR 0xE8, CHR 0xAF, CHR 0xBB, CHR 0xE5, CHR 0x8F, CHR 0x96, CHR 0xE4, CHR 0xBC, CHR 0x9A, CHR 0xE8, CHR 0xAF, CHR 0x9D, CHR 0xEF, CHR 0xBC, CHR 0x88, CHR 0xE4, CHR 0xBE, CHR 0x9D, CHR 0xE8, CHR 0xB5, CHR 0x96] @ '' scan '' @ [CHR 0xE7, CHR 0xBB, CHR 0x93, CHR 0xE6, CHR 0x9E, CHR 0x9C, CHR 0xEF, CHR 0xBC, CHR 0x89]),
    (''analyze_session'', [],
       [CHR 0xE5, CHR 0x88, CHR 0x86, CHR 0xE6, CHR 0x9E, CHR 0x90, CHR 0xE4, CHR 0xBC, CHR 0x9A, CHR 0xE8, CHR 0xAF, CHR 0x9D, CHR 0xEF, CHR 0xBC, CHR 0x88, CHR 0xE4, CHR 0xBE, CHR 0x9D, CHR 0xE8, CHR 0xB5, CHR 0x96] @ '' scan '' @ [CHR 0xE7, CHR 0xBB, CHR 0x93, CHR 0xE6, CHR 0x9E, CHR 0x9C, CHR 0xEF, CHR 0xBC, CHR 0x89]),
    (''post_to_codeblog'', [],
       [CHR 0xE5, CHR 0x8F, CHR 0x91, CHR 0xE5, CHR 0xB8, CHR 0x96, CHR 0xEF, CHR 0xBC, CHR 0x88, CHR 0xE4, CHR 0xBE, CHR 0x9D, CHR 0xE8, CHR 0xB5, CHR 0x96, CHR 0xE4, CHR 0xBC, CHR 0x9A, CHR 0xE8, CHR 0xAF, CHR 0x9D, CHR 0xE8, CHR 0xB7, CHR 0xAF, CHR 0xE5, CHR 0xBE, CHR 0x84, CHR 0xEF, CHR 0xBC, CHR 0x89]),
    (''auto_post'', [(''dry_run'', JBool True)],
       [CHR 0xE8, CHR 0x87, CHR 0xAA, CHR 0xE5, CHR 0x8A, CHR 0xA8, CHR 0xE5, CHR 0x8F, CHR 0x91, CHR 0xE5, CHR 0xB8, CHR 0x96, CHR 0xE9, CHR 0xA2, CHR 0x84, CHR 0xE8, CHR 0xA7, CHR 0x88]),
    (''weekly_digest'', [(''dry_run'', JBool True)],
       [CHR 0xE5, CHR 0x91, CHR 0xA8, CHR 0xE6, CHR 0x8A, CHR 0xA5, CHR 0xE9, CHR 0xA2, CHR 0x84, CHR 0xE8, CHR 0xA7, CHR 0x88]),
    (''preview_post'', [(''mode'', JStr (''manual'')), (''title'', JStr (''MCP '' @ [CHR 0xE9, CHR 0xAA, CHR 0x8C, CHR 0xE6, CHR 0x94, CHR 0xB6, CHR 0xE8, CHR 0x8D, CHR 0x89, CHR 0xE7, CHR 0xA8, CHR 0xBF])), (''content'', JStr (''## '' @ [CHR 0xE9, CHR 0xAA, CHR 0x8C, CHR 0xE6, CHR 0x94, CHR 0xB6, CHR 0x0A, CHR 0xE5, CHR 0x86, CHR 0x85, CHR 0xE5, CHR 0xAE, CHR 0xB9])), (''category'', JStr (''general'')), (''tags'', JList [JStr (''mcp''), JStr (''qa'')])],
       [CHR 0xE7, CHR 0x94, CHR 0x9F, CHR 0xE6, CHR 0x88, CHR 0x90, CHR 0xE9, CHR 0xA2, CHR 0x84, CHR 0xE8, CHR 0xA7, CHR 0x88]),
    (''confirm_post'', [],
       [CHR 0xE5, CHR 0x8F, CHR 0x91, CHR 0xE5, CHR 0xB8, CHR 0x83, CHR 0xE9, CHR 0xA2, CHR 0x84, CHR 0xE8, CHR 0xA7, CHR 0x88, CHR 0xEF, CHR 0xBC, CHR 0x88, CHR 0xE4, CHR 0xBE, CHR 0x9D, CHR 0xE8, CHR 0xB5, CHR 0x96] @ '' preview '' @ [CHR 0xE8, CHR 0xBF, CHR 0x94, CHR 0xE5, CHR 0x9B, CHR 0x9E] @ '' ID'' @ [CHR 0xEF, CHR 0xBC, CHR 0x89]),
    (''create_draft'', [(''title'', JStr (''MCP '' @ [CHR 0xE9, CHR 0xAA, CHR 0x8C, CHR 0xE6, CHR 0x94, CHR 0xB6, CHR 0xE8, CHR 0x8D, CHR 0x89, CHR 0xE7, CHR 0xA8, CHR 0xBF])), (''summary'', JStr ([CHR 0xE8, CHR 0x87, CHR 0xAA, CHR 0xE5, CHR 0x8A, CHR 0xA8, CHR 0xE5, CHR 0x8C, CHR 0x96, CHR 0xE9, CHR 0xAA, CHR 0x8C, CHR 0xE6, CHR 0x94, CHR 0xB6])), (''content'', JStr (''## '' @ [CHR 0xE5, CHR 0x86, CHR 0x85, CHR 0xE5, CHR 0xAE, CHR 0xB9, CHR 0x0A, CHR 0xE6, CHR 0xB5, CHR 0x8B, CHR 0xE8, CHR 0xAF, CHR 0x95, CHR 0xE8, CHR 0x8D, CHR 0x89, CHR 0xE7, CHR 0xA8, CHR 0xBF])), (''tags'', JList [JStr (''mcp''), JStr (''qa'')]), (''category'', JStr (''tools''))],
       [CHR 0xE5, CHR 0x88, CHR 0x9B, CHR 0xE5, CHR 0xBB, CHR 0xBA, CHR 0xE8, CHR 0x8D, CHR 0x89, CHR 0xE7, CHR 0xA8, CHR 0xBF]),
    (''browse_posts'', [(''limit'', JInt 5)],
       [CHR 0xE6, CHR 0xB5, CHR 0x8F, CHR 0xE8, CHR 0xA7, CHR 0x88, CHR 0xE5, CHR 0xB8, CHR 0x96, CHR 0xE5, CHR 0xAD, CHR 0x90]),
    (''search_posts'', [(''query'', JStr (''mcp'')), (''limit'', JInt 5)],
       [CHR 0xE6, CHR 0x90, CHR 0x9C, CHR 0xE7, CHR 0xB4, CHR 0xA2, CHR 0xE5, CHR 0xB8, CHR 0x96, CHR 0xE5, CHR 0xAD, CHR 0x90]),
    (''read_post'', [],
       [CHR 0xE8, CHR 0xAF, CHR 0xBB, CHR 0xE5, CHR 0x8F, CHR 0x96, CHR 0xE5, CHR 0xB8, CHR 0x96, CHR 0xE5, CHR 0xAD, CHR 0x90, CHR 0xEF, CHR 0xBC, CHR 0x88, CHR 0xE4, CHR 0xBE, CHR 0x9D, CHR 0xE8, CHR 0xB5, CHR 0x96] @ '' browse/search'' @ [CHR 0xEF, CHR 0xBC, CHR 0x89]),
    (''comment_on_post'', [],
       [CHR 0xE8, CHR 0xAF, CHR 0x84, CHR 0xE8, CHR 0xAE, CHR 0xBA, CHR 0xE5, CHR 0xB8, CHR 0x96, CHR 0xE5, CHR 0xAD, CHR 0x90, CHR 0xEF, CHR 0xBC, CHR 0x88, CHR 0xE4, CHR 0xBE, CHR 0x9D, CHR 0xE8, CHR 0xB5, CHR 0x96] @ '' post_id'' @ [CHR 0xEF, CHR 0xBC, CHR 0x89]),
    (''vote_on_post'', [],
       [CHR 0xE6, CHR 0x8A, CHR 0x95, CHR 0xE7, CHR 0xA5, CHR 0xA8, CHR 0xE5, CHR 0xB8, CHR 0x96, CHR 0xE5, CHR 0xAD, CHR 0x90, CHR 0xEF, CHR 0xBC, CHR 0x88, CHR 0xE4, CHR 0xBE, CHR 0x9D, CHR 0xE8, CHR 0xB5, CHR 0x96] @ '' post_id'' @ [CHR 0xEF, CHR 0xBC, CHR 0x89]),
    (''edit_post'', [],
       [CHR 0xE7, CHR 0xBC, CHR 0x96, CHR 0xE8, CHR 0xBE, CHR 0x91, CHR 0xE5, CHR 0xB8, CHR 0x96, CHR 0xE5, CHR 0xAD, CHR 0x90, CHR 0xEF, CHR 0xBC, CHR 0x88, CHR 0xE4, CHR 0xBE, CHR 0x9D, CHR 0xE8, CHR 0xB5, CHR 0x96] @ '' post_id'' @ [CHR 0xEF, CHR 0xBC, CHR 0x89]),
    (''delete_post'', [],
       [CHR 0xE5, CHR 0x88, CHR 0xA0, CHR 0xE9, CHR 0x99, CHR 0xA4, CHR 0xE5, CHR 0xB8, CHR 0x96, CHR 0xE5, CHR 0xAD, CHR 0x90, CHR 0xEF, CHR 0xBC, CHR 0x88, CHR 0xE4, CHR 0xBE, CHR 0x9D, CHR 0xE8, CHR 0xB5, CHR 0x96] @ '' post_id'' @ [CHR 0xEF, CHR 0xBC, CHR 0x89]),
    (''bookmark_post'', [(''action'', JStr (''list''))],
       [CHR 0xE4, CHR 0xB9, CHR 0xA6, CHR 0xE7, CHR 0xAD, CHR 0xBE, CHR 0xE5, CHR 0x88, CHR 0x97, CHR 0xE8, CHR 0xA1, CHR 0xA8]),
    (''browse_by_tag'', [(''action'', JStr (''trending'')), (''limit'', JInt 5)],
       [CHR 0xE6, CHR 0xB5, CHR 0x8F, CHR 0xE8, CHR 0xA7, CHR 0x88, CHR 0xE6, CHR 0xA0, CHR 0x87, CHR 0xE7, CHR 0xAD, CHR 0xBE]),
    (''trending_topics'', [],
       [CHR 0xE7, CHR 0x83, CHR 0xAD, CHR 0xE7, CHR 0x82, CHR 0xB9, CHR 0xE4, CHR 0xB8, CHR 0xBB, CHR 0xE9, CHR 0xA2, CHR 0x98]),
    (''explore_and_engage'', [(''action'', JStr (''browse'')), (''limit'', JInt 3)],
       [CHR 0xE6, CHR 0x8E, CHR 0xA2, CHR 0xE7, CHR 0xB4, CHR 0xA2, CHR 0xE5, CHR 0xB8, CHR 0x96, CHR 0xE5, CHR 0xAD, CHR 0x90]),
    (''join_debate'', [(''action'', JStr (''list''))],
       [CHR 0xE6, CHR 0x9F, CHR 0xA5, CHR 0xE7, CHR 0x9C, CHR 0x8B, CHR 0xE8, CHR 0xBE, CHR 0xA9, CHR 0xE8, CHR 0xAE, CHR 0xBA]),
    (''follow_agent'', [(''action'', JStr (''list_following'')), (''limit'', JInt 5)],
       [CHR 0xE5, CHR 0x85, CHR 0xB3, CHR 0xE6, CHR 0xB3, CHR 0xA8, CHR 0xE5, CHR 0x88, CHR 0x97, CHR 0xE8, CHR 0xA1, CHR 0xA8]),
    (''manage_agents'', [(''action'', JStr (''list''))],
       [CHR 0xE4, CHR 0xBB, CHR 0xA3, CHR 0xE7, CHR 0x90, CHR 0x86, CHR 0xE5, CHR 0x88, CHR 0x97, CHR 0xE8, CHR 0xA1, CHR 0xA8]),
    (''my_posts'', [(''limit'', JInt 5), (''sort'', JStr (''new''))],
       [CHR 0xE6, CHR 0x88, CHR 0x91, CHR 0xE7, CHR 0x9A, CHR 0x84, CHR 0xE5, CHR 0xB8, CHR 0x96, CHR 0xE5, CHR 0xAD, CHR 0x90]),
    (''my_dashboard'', [],
       [CHR 0xE6, CHR 0x88, CHR 0x91, CHR 0xE7, CHR 0x9A, CHR 0x84, CHR 0xE7, CHR 0x9C, CHR 0x8B, CHR 0xE6, CHR 0x9D, CHR 0xBF]),
    (''my_notifications'', [(''action'', JStr (''list'')), (''limit'', JInt 10)],
       [CHR 0xE9, CHR 0x80, CHR 0x9A, CHR 0xE7, CHR 0x9F, CHR 0xA5, CHR 0xE5, CHR 0x88, CHR 0x97, CHR 0xE8, CHR 0xA1, CHR 0xA8]),
    (''codeblog_setup'', [],
       [CHR 0xE7, CHR 0x99, CHR 0xBB, CHR 0xE5, CHR 0xBD, CHR 0x95, CHR 0xE6, CHR 0xA8, CHR 0xA1, CHR 0xE5, CHR 0xBC, CHR 0x8F, CHR 0xE9, CHR 0x85, CHR 0x8D, CHR 0xE7, CHR 0xBD, CHR 0xAE, CHR 0xE5, CHR 0x86, CHR 0x99, CHR 0xE5, CHR 0x85, CHR 0xA5]),
    (''codeblog_status'', [],
       [CHR 0xE6, CHR 0x9C, CHR 0x8D, CHR 0xE5, CHR 0x8A, CHR 0xA1, CHR 0xE7, CHR 0x8A, CHR 0xB6, CHR 0xE6, CHR 0x80, CHR 0x81]),
    (''collect_daily_stats'', [],
       [CHR 0xE9, CHR 0x87, CHR 0x87, CHR 0xE9, CHR 0x9B, CHR 0x86, CHR 0xE6, CHR 0x97, CHR 0xA5, CHR 0xE6, CHR 0x8A, CHR 0xA5, CHR 0xE7, CHR 0xBB, CHR 0x9F, CHR 0xE8, CHR 0xAE, CHR 0xA1]),
    (''save_daily_report'', [],
       [CHR 0xE4, CHR 0xBF, CHR 0x9D, CHR 0xE5, CHR 0xAD, CHR 0x98, CHR 0xE6, CHR 0x97, CHR 0xA5, CHR 0xE6, CHR 0x8A, CHR 0xA5, CHR 0xEF, CHR 0xBC, CHR 0x88, CHR 0xE4, CHR 0xBE, CHR 0x9D, CHR 0xE8, CHR 0xB5, CHR 0x96] @ '' collect '' @ [CHR 0xE7, CHR 0xBB, CHR 0x93, CHR 0xE6, CHR 0x9E, CHR 0x9C, CHR 0xEF, CHR 0xBC, CHR 0x89]),
    (''configure_daily_report'', [(''get'', JBool True)],
       [CHR 0xE6, CHR 0x9F, CHR 0xA5, CHR 0xE8, CHR 0xAF, CHR 0xA2, CHR 0xE6, CHR 0x97, CHR 0xA5, CHR 0xE6, CHR 0x8A, CHR 0xA5, CHR 0xE9, CHR 0x85, CHR 0x8D, CHR 0xE7, CHR 0xBD, CHR 0xAE])
  ]"

text \<open>
  The first part of the loop body of \<^verbatim>\<open>main\<close>: the arguments of the call, from the
  template and the context. The \<^verbatim>\<open>if\<close> statements follow one another as in the source.
\<close>

definition session_args :: "string \<Rightarrow> pydict \<Rightarrow> pydict \<Rightarrow> pydict" where
  "session_args tool ctx args_payload =
     (if tool \<in> {''read_session'', ''analyze_session'', ''post_to_codeblog''}
      then if truthy (dict_get ctx ''session_path'' JNull) \<and> truthy (dict_get ctx ''session_source'' JNull)
           then if tool = ''post_to_codeblog''
                then [(''title'', JStr (''MCP '' @ [CHR 0xE9, CHR 0xAA, CHR 0x8C, CHR 0xE6, CHR 0x94, CHR 0xB6, CHR 0xE8, CHR 0x87, CHR 0xAA, CHR 0xE5, CHR 0x8A, CHR 0xA8, CHR 0xE5, CHR 0x8F, CHR 0x91, CHR 0xE5, CHR 0xB8, CHR 0x96])),
                      (''content'', JStr (''## '' @ [CHR 0xE8, CHR 0x83, CHR 0x8C, CHR 0xE6, CHR 0x99, CHR 0xAF, CHR 0x0A] @ ''MCP '' @ [CHR 0xE9, CHR 0x95, CHR 0xBF, CHR 0xE8, CHR 0xB7, CHR 0x91, CHR 0xE9, CHR 0xAA, CHR 0x8C, CHR 0xE6, CHR 0x94, CHR 0xB6, CHR 0xE8, CHR 0x87, CHR 0xAA, CHR 0xE5, CHR 0x8A, CHR 0xA8, CHR 0xE5, CHR 0x8F, CHR 0x91, CHR 0xE5, CHR 0xB8, CHR 0x96, CHR 0xE3, CHR 0x80, CHR 0x82, CHR 0x0A, CHR 0x0A] @ ''## '' @ [CHR 0xE7, CHR 0xBB, CHR 0x93, CHR 0xE6, CHR 0x9E, CHR 0x9C, CHR 0x0A, CHR 0xE7, CHR 0x94, CHR 0xA8, CHR 0xE4, CHR 0xBA, CHR 0x8E, CHR 0xE9, CHR 0xAA, CHR 0x8C, CHR 0xE8, CHR 0xAF, CHR 0x81] @ '' post/edit/delete '' @ [CHR 0xE5, CHR 0xB7, CHR 0xA5, CHR 0xE5, CHR 0x85, CHR 0xB7, CHR 0xE9, CHR 0x93, CHR 0xBE, CHR 0xE6, CHR 0x98, CHR 0xAF, CHR 0xE5, CHR 0x90, CHR 0xA6, CHR 0xE7, CHR 0xA8, CHR 0xB3, CHR 0xE5, CHR 0xAE, CHR 0x9A, CHR 0xE5, CHR 0x8F, CHR 0xAF, CHR 0xE7, CHR 0x94, CHR 0xA8, CHR 0xE3, CHR 0x80, CHR 0x82])),
                      (''source_session'', dict_get ctx ''session_path'' JNull),
                      (''tags'', JList [JStr ''mcp'', JStr ''qa'']),
                      (''summary'', JStr ([CHR 0xE8, CHR 0x87, CHR 0xAA, CHR 0xE5, CHR 0x8A, CHR 0xA8, CHR 0xE5, CHR 0x8C, CHR 0x96, CHR 0xE9, CHR 0xAA, CHR 0x8C, CHR 0xE6, CHR 0x94, CHR 0xB6, CHR 0xE5, CHR 0xB8, CHR 0x96, CHR 0xE5, CHR 0xAD, CHR 0x90])),
                      (''category'', JStr ''tools''),
                      (''language'', JStr ''zh'')]
                else dict_update args_payload
                       [(''path'', dict_get ctx ''session_path'' JNull),
                        (''source'', dict_get ctx ''session_source'' JNull)]
           else []
      else args_payload)"

definition post_args :: "string \<Rightarrow> pydict \<Rightarrow> pydict \<Rightarrow> pydict" where
  "post_args tool ctx args_payload =
     (if tool \<in> {''read_post'', ''comment_on_post'', ''vote_on_post''}
      then let a1 = (if truthy (dict_get ctx ''post_id'' JNull)
                     then dict_set args_payload ''post_id'' (dict_get ctx ''post_id'' JNull) else []);
               a2 = (if tool = ''comment_on_post'' \<and> dict_has a1 ''post_id''
                     then dict_set a1 ''content'' (JStr (''MCP '' @ [CHR 0xE9, CHR 0x95, CHR 0xBF, CHR 0xE8, CHR 0xB7, CHR 0x91, CHR 0xE9, CHR 0xAA, CHR 0x8C, CHR 0xE6, CHR 0x94, CHR 0xB6, CHR 0xE8, CHR 0x87, CHR 0xAA, CHR 0xE5, CHR 0x8A, CHR 0xA8, CHR 0xE8, CHR 0xAF, CHR 0x84, CHR 0xE8, CHR 0xAE, CHR 0xBA, CHR 0xEF, CHR 0xBC, CHR 0x88, CHR 0xE5, CHR 0xA6, CHR 0x82, CHR 0xE6, CHR 0x89, CHR 0x93, CHR 0xE6, CHR 0x89, CHR 0xB0, CHR 0xE5, CHR 0x8F, CHR 0xAF, CHR 0xE5, CHR 0x88, CHR 0xA0, CHR 0xEF, CHR 0xBC, CHR 0x89])) else a1)
           in if tool = ''vote_on_post'' \<and> dict_has a2 ''post_id''
              then dict_set a2 ''value'' (JInt 0) else a2
      else args_payload)"

definition own_post_args :: "string \<Rightarrow> pydict \<Rightarrow> pydict \<Rightarrow> pydict" where
  "own_post_args tool ctx args_payload =
     (if tool \<in> {''edit_post'', ''delete_post''}
      then let a1 = (if truthy (dict_get ctx ''own_post_id'' JNull)
                     then dict_set args_payload ''post_id'' (dict_get ctx ''own_post_id'' JNull) else []);
               a2 = (if tool = ''edit_post'' \<and> dict_has a1 ''post_id''
                     then dict_update a1 [(''title'', JStr (''MCP '' @ [CHR 0xE9, CHR 0xAA, CHR 0x8C, CHR 0xE6, CHR 0x94, CHR 0xB6, CHR 0xE6, CHR 0x9B, CHR 0xB4, CHR 0xE6, CHR 0x96, CHR 0xB0, CHR 0xE6, CHR 0xA0, CHR 0x87, CHR 0xE9, CHR 0xA2, CHR 0x98])),
                                          (''summary'', JStr ([CHR 0xE6, CHR 0x9B, CHR 0xB4, CHR 0xE6, CHR 0x96, CHR 0xB0, CHR 0xE6, CHR 0x91, CHR 0x98, CHR 0xE8, CHR 0xA6, CHR 0x81]))]
                     else a1)
           in if tool = ''delete_post'' \<and> dict_has a2 ''post_id''
              then dict_set a2 ''confirm'' (JBool True) else a2
      else args_payload)"

definition confirm_args :: "string \<Rightarrow> pydict \<Rightarrow> pydict \<Rightarrow> pydict" where
  "confirm_args tool ctx args_payload =
     (if tool = ''confirm_post''
      then if truthy (dict_get ctx ''preview_id'' JNull)
           then dict_set args_payload ''preview_id'' (dict_get ctx ''preview_id'' JNull) else []
      else args_payload)"

definition setup_args :: "string \<Rightarrow> pydict \<Rightarrow> pydict \<Rightarrow> pydict" where
  "setup_args tool ctx args_payload =
     (if tool = ''codeblog_setup''
      then if truthy (dict_get ctx ''qa_email'' JNull) \<and> truthy (dict_get ctx ''qa_password'' JNull)
           then [(''mode'', JStr ''login''), (''email'', dict_get ctx ''qa_email'' JNull),
                 (''password'', dict_get ctx ''qa_password'' JNull)]
           else [(''mode'', JStr ''browser'')]
      else args_payload)"

definition report_args :: "pylib \<Rightarrow> string \<Rightarrow> pydict \<Rightarrow> pydict \<Rightarrow> pydict" where
  "report_args L tool ctx args_payload =
     (if tool = ''save_daily_report''
      then let stats = dict_get ctx ''raw_stats'' JNull;
               date = dict_get ctx ''stats_date'' JNull;
               tz = dict_get ctx ''stats_tz'' JNull
           in if truthy stats \<and> truthy date \<and> truthy tz
              then [(''date'', date), (''timezone'', tz), (''stats'', JStr (dumps L stats))]
              else []
      else args_payload)"

definition resolve_args :: "pylib \<Rightarrow> string \<Rightarrow> pydict \<Rightarrow> pydict \<Rightarrow> pydict" where
  "resolve_args L tool base_args ctx =
     report_args L tool ctx
       (setup_args tool ctx
         (confirm_args tool ctx
           (own_post_args tool ctx
             (post_args tool ctx
               (session_args tool ctx base_args)))))"

text \<open>
  The extraction rules, applied to the text of a result that was read. A rule inside
  \<^verbatim>\<open>try: ... except Exception: pass\<close> leaves the context as it was when it raises.
\<close>

definition scan_rule :: "pylib \<Rightarrow> string \<Rightarrow> string \<Rightarrow> pydict \<Rightarrow> pydict" where
  "scan_rule L tool txt ctx =
     (if tool = ''scan_sessions''
      then (case loads L txt of
              Inr (JList (JDict first # rest)) \<Rightarrow>
                dict_set (dict_set ctx ''session_path'' (dict_get first ''path'' JNull))
                  ''session_source'' (dict_get first ''source'' JNull)
            | _ \<Rightarrow> ctx)
      else ctx)"

definition browse_rule :: "pylib \<Rightarrow> string \<Rightarrow> string \<Rightarrow> pydict \<Rightarrow> pydict" where
  "browse_rule L tool txt ctx =
     (if tool = ''browse_posts''
      then (case loads L txt of
              Inr (JDict parsed) \<Rightarrow>
                (case dict_get parsed ''posts'' (JList []) of
                   JList (JDict post # rest) \<Rightarrow> dict_set ctx ''post_id'' (dict_get post ''id'' JNull)
                 | _ \<Rightarrow> ctx)
            | _ \<Rightarrow> ctx)
      else ctx)"

definition preview_rule :: "string \<Rightarrow> string \<Rightarrow> pydict \<Rightarrow> pydict" where
  "preview_rule tool txt ctx =
     (if tool = ''preview_post'' \<and> parse_preview_id txt \<noteq> []
      then dict_set ctx ''preview_id'' (JStr (parse_preview_id txt)) else ctx)"

definition stats_rule :: "pylib \<Rightarrow> string \<Rightarrow> string \<Rightarrow> pydict \<Rightarrow> pydict" where
  "stats_rule L tool txt ctx =
     (if tool = ''collect_daily_stats''
      then (case loads L txt of
              Inr (JDict parsed) \<Rightarrow>
                dict_set (dict_set (dict_set ctx ''raw_stats'' (dict_get parsed ''_rawStats'' JNull))
                  ''stats_date'' (dict_get parsed ''date'' JNull))
                  ''stats_tz'' (dict_get parsed ''timezone'' JNull)
            | _ \<Rightarrow> ctx)
      else ctx)"

definition post_rule :: "string \<Rightarrow> string \<Rightarrow> pydict \<Rightarrow> pydict" where
  "post_rule tool txt ctx =
     (if tool = ''post_to_codeblog'' \<and> parse_post_id txt \<noteq> []
      then dict_set ctx ''own_post_id'' (JStr (parse_post_id txt)) else ctx)"

definition confirm_rule :: "string \<Rightarrow> string \<Rightarrow> pydict \<Rightarrow> pydict" where
  "confirm_rule tool txt ctx =
     (if tool = ''confirm_post'' \<and> parse_post_id txt \<noteq> [] \<and> \<not> truthy (dict_get ctx ''own_post_id'' JNull)
      then dict_set ctx ''own_post_id'' (JStr (parse_post_id txt)) else ctx)"

definition extract_context :: "pylib \<Rightarrow> string \<Rightarrow> string \<Rightarrow> pydict \<Rightarrow> pydict" where
  "extract_context L tool txt ctx =
     confirm_rule tool txt
       (post_rule tool txt
         (stats_rule L tool txt
           (preview_rule tool txt
             (browse_rule L tool txt
               (scan_rule L tool txt ctx)))))"

text \<open>
  What the \<^verbatim>\<open>try\<close> block of the loop body leaves in the local variables, on its normal
  path and in its \<^verbatim>\<open>except Exception\<close> handler.
\<close>

record verdict =
  passed :: bool
  actual :: string
  error_msg :: string
  issue :: string
  root_cause :: string
  fix_action :: string
  retest :: string

definition succeeded :: "string \<Rightarrow> json \<Rightarrow> verdict" where
  "succeeded txt is_error =
     \<lparr>passed = \<not> truthy is_error, actual = take 2000 txt, error_msg = [], issue = [],
      root_cause = [], fix_action = [], retest = []\<rparr>"

definition failed :: "string \<Rightarrow> verdict" where
  "failed msg =
     \<lparr>passed = False, actual = take 2000 msg, error_msg = msg,
      issue = [CHR 0xE8, CHR 0x87, CHR 0xAA, CHR 0xE5, CHR 0x8A, CHR 0xA8, CHR 0xE9, CHR 0xAA, CHR 0x8C, CHR 0xE6, CHR 0x94, CHR 0xB6, CHR 0xE5, CHR 0xA4, CHR 0xB1, CHR 0xE8, CHR 0xB4, CHR 0xA5],
      root_cause = ([CHR 0xE5, CHR 0xB7, CHR 0xA5, CHR 0xE5, CHR 0x85, CHR 0xB7, CHR 0xE8, CHR 0xB0, CHR 0x83, CHR 0xE7, CHR 0x94, CHR 0xA8, CHR 0xE5, CHR 0xBC, CHR 0x82, CHR 0xE5, CHR 0xB8, CHR 0xB8, CHR 0xEF, CHR 0xBC, CHR 0x9A]) @ take 120 msg,
      fix_action = [CHR 0xE8, CHR 0xA1, CHR 0xA5, CHR 0xE9, CHR 0xBD, CHR 0x90, CHR 0xE5, CHR 0x89, CHR 0x8D, CHR 0xE7, CHR 0xBD, CHR 0xAE, CHR 0xE4, CHR 0xBE, CHR 0x9D, CHR 0xE8, CHR 0xB5, CHR 0x96, CHR 0xE5, CHR 0xB9, CHR 0xB6, CHR 0xE9, CHR 0x87, CHR 0x8D, CHR 0xE8, CHR 0xAF, CHR 0x95, CHR 0xEF, CHR 0xBC, CHR 0x9B, CHR 0xE5, CHR 0xA6, CHR 0x82, CHR 0xE4, CHR 0xB8, CHR 0xBA, CHR 0xE4, CHR 0xBB, CHR 0xA3, CHR 0xE7, CHR 0xA0, CHR 0x81, CHR 0xE9, CHR 0x97, CHR 0xAE, CHR 0xE9, CHR 0xA2, CHR 0x98, CHR 0xE5, CHR 0x88, CHR 0x99, CHR 0xE4, CHR 0xBF, CHR 0xAE, CHR 0xE5, CHR 0xA4, CHR 0x8D, CHR 0xE5, CHR 0x90, CHR 0x8E, CHR 0xE5, CHR 0xA4, CHR 0x8D, CHR 0xE6, CHR 0xB5, CHR 0x8B],
      retest = cell_no\<rparr>"

definition attempt :: "pylib \<Rightarrow> string \<Rightarrow> pydict \<Rightarrow> pydict \<Rightarrow> MCPClient \<Rightarrow> verdict \<times> pydict \<times> MCPClient" where
  "attempt L tool args_payload ctx c =
     (case call_tool L tool args_payload c of
        (Inl ex, c') \<Rightarrow> (failed (str_exc L ex), ctx, c')
      | (Inr result, c') \<Rightarrow>
          (case extract_text L result of
             Inl ex \<Rightarrow> (failed (str_exc L ex), ctx, c')
           | Inr txt \<Rightarrow>
               (case attr_get result ''isError'' JNull of
                  Inl ex \<Rightarrow> (failed (str_exc L ex), ctx, c')
                | Inr is_error \<Rightarrow> (succeeded txt is_error, extract_context L tool txt ctx, c'))))"

text \<open>
  The clock and the random identifiers of one turn of the loop: \<^verbatim>\<open>now_iso()\<close> before and
  after the call, the elapsed milliseconds, the first eight hexadecimal digits of the
  \<^verbatim>\<open>uuid4\<close> of the issue, and \<^verbatim>\<open>now_iso()\<close> inside \<^verbatim>\<open>update_matrix\<close>.
\<close>

record stamps =
  start_iso :: string
  end_iso :: string
  elapsed_ms :: int
  issue_hex :: string
  matrix_now :: string

definition escape_newlines :: "string \<Rightarrow> string" where
  "escape_newlines s = concat (map (\<lambda>c. if c = CHR 0x0A then [CHR 0x5C, CHR ''n''] else [c]) s)"

definition retest_cell :: "verdict \<Rightarrow> string" where
  "retest_cell v = (if retest v \<noteq> [] then retest v else if passed v then cell_yes else cell_no)"

definition log_row ::
  "pylib \<Rightarrow> stamps \<Rightarrow> string \<Rightarrow> int \<Rightarrow> string \<Rightarrow> pydict \<Rightarrow> string \<Rightarrow> verdict \<Rightarrow> string list" where
  "log_row L st run_id round_no tool args_payload scenario v =
     [run_id,
      str_int round_no,
      start_iso st,
      end_iso st,
      tool,
      ''MCP'' @ [CHR 0xE7, CHR 0x9B, CHR 0xB4, CHR 0xE8, CHR 0xBF, CHR 0x9E],
      take 500 (dumps L (mask_payload (JDict args_payload))),
      scenario,
      escape_newlines (take 500 (actual v)),
      str_int (elapsed_ms st),
      (if passed v then cell_yes else cell_no),
      (if passed v then [CHR 0xE6, CHR 0xAD, CHR 0xA3, CHR 0xE5, CHR 0xB8, CHR 0xB8] else [CHR 0xE5, CHR 0xBC, CHR 0x82, CHR 0xE5, CHR 0xB8, CHR 0xB8]),
      (if passed v then [CHR 0xE6, CHR 0xAD, CHR 0xA3, CHR 0xE5, CHR 0xB8, CHR 0xB8] else [CHR 0xE5, CHR 0xBC, CHR 0x82, CHR 0xE5, CHR 0xB8, CHR 0xB8]),
      (if passed v then [] else [CHR 0xE6, CHR 0x9C, CHR 0x89]),
      take 500 (error_msg v),
      (if \<not> passed v then ''ISSUE-'' @ issue_hex st else []),
      root_cause v,
      fix_action v,
      retest_cell v,
      []]"

record runner =
  client :: MCPClient
  dynamic_context :: pydict
  run_log :: table
  matrix :: table

text \<open>
  One turn of the loop over the catalog. An exception of \<^verbatim>\<open>update_matrix\<close> is not caught:
  it ends the pass (the first component), after the row was appended to the log.
\<close>

definition run_op ::
  "pylib \<Rightarrow> stamps \<Rightarrow> string \<Rightarrow> int \<Rightarrow> string \<times> pydict \<times> string \<Rightarrow> runner \<Rightarrow> py_error option \<times> runner" where
  "run_op L st run_id round_no descriptor s =
     (case descriptor of (tool, base_args, scenario) \<Rightarrow>
        let args_payload = resolve_args L tool base_args (dynamic_context s);
            (v, ctx, c) = attempt L tool args_payload (dynamic_context s) (client s);
            s1 = s\<lparr>client := c, dynamic_context := ctx,
                   run_log := append_run_log (run_log s)
                                (log_row L st run_id round_no tool args_payload scenario v)\<rparr>
        in (case update_matrix (matrix s1) tool run_id (passed v) (issue v) (root_cause v) (fix_action v)
                   (retest_cell v) (matrix_now st) of
              Inl ex \<Rightarrow> (Some ex, s1)
            | Inr m \<Rightarrow> (None, s1\<lparr>matrix := m\<rparr>)))"

text \<open>\<^verbatim>\<open>for tool, base_args, scenario in TOOLS\<close>; \<open>clock n\<close> serves the \<open>n\<close>-th turn.\<close>

fun run_ops ::
  "pylib \<Rightarrow> (nat \<Rightarrow> stamps) \<Rightarrow> string \<Rightarrow> int \<Rightarrow> nat \<Rightarrow> (string \<times> pydict \<times> string) list \<Rightarrow> runner
     \<Rightarrow> py_error option \<times> runner" where
  "run_ops L clock run_id round_no n [] s = (None, s)"
| "run_ops L clock run_id round_no n (d # ds) s =
     (case run_op L (clock n) run_id round_no d s of
        (Some ex, s') \<Rightarrow> (Some ex, s')
      | (None, s') \<Rightarrow> run_ops L clock run_id round_no (Suc n) ds s')"

text \<open>
  One pass of \<^verbatim>\<open>main\<close> over a catalog: the context is seeded with the credentials
  (\<open>creds\<close> is what \<^verbatim>\<open>ensure_login_credentials\<close> returned, \<open>None\<close> when it raised), a new
  client is started on the child's events, and the catalog is run. An exception of
  \<^verbatim>\<open>start\<close> ends the pass before the first operation.
\<close>

definition seed_context :: "(string \<times> string) option \<Rightarrow> pydict" where
  "seed_context creds =
     (case creds of
        Some (qa_email, qa_password) \<Rightarrow> [(''qa_email'', JStr qa_email), (''qa_password'', JStr qa_password)]
      | None \<Rightarrow> [(''qa_email'', JStr []), (''qa_password'', JStr [])])"


section \<open>Statements about the session\<close>




section \<open>Example data\<close>

text \<open>
  Lines a server writes, and \<open>demo_loads\<close>: a decoder that covers the lines and texts of
  the examples. On each of them it returns what \<^verbatim>\<open>json.loads\<close> returns; any other string
  of the examples is not JSON, and gets the message \<^verbatim>\<open>json.loads\<close> raises at its first
  character. \<open>demo_dumps\<close> and \<open>demo_repr\<close> stand for the encoders, whose output no example
  depends on.
\<close>

definition init_reply_1 :: string where
  \<open>init_reply_1 = ''{"jsonrpc":"2.0","id":1,"result":{"protocolVersion":"2024-11-05","capabilities":{},"serverInfo":{"name":"codeblog-mcp","version":"1.0.0"}}}''\<close>

definition reply_1 :: string where
  \<open>reply_1 = ''{"jsonrpc":"2.0","id":1,"result":{"content":[{"type":"text","text":"pong"}]}}''\<close>

definition reply_1_error :: string where
  \<open>reply_1_error = ''{"jsonrpc":"2.0","id":1,"error":{"code":-32000,"message":"boom"}}''\<close>

definition late_reply :: string where
  \<open>late_reply = ''{"jsonrpc":"2.0","id":7,"result":{}}''\<close>

definition log_notification :: string where
  \<open>log_notification = ''{"jsonrpc":"2.0","method":"notifications/message","params":{"level":"info","data":"ready"}}''\<close>

definition progress_notification :: string where
  \<open>progress_notification = ''{"jsonrpc":"2.0","method":"notifications/progress","params":{"progress":1}}''\<close>

definition reply_2 :: string where
  \<open>reply_2 = ''{"jsonrpc":"2.0","id":2,"result":{"content":[{"type":"text","text":"ok"}]}}''\<close>

definition reply_3_error :: string where
  \<open>reply_3_error = ''{"jsonrpc":"2.0","id":3,"error":{"code":-32602,"message":"invalid arguments"}}''\<close>

definition reply_4 :: string where
  \<open>reply_4 = ''{"jsonrpc":"2.0","id":4,"result":{"content":[{"type":"text","text":"ok"}]}}''\<close>

definition reply_5 :: string where
  \<open>reply_5 = ''{"jsonrpc":"2.0","id":5,"result":{"content":[{"type":"text","text":"ok"}]}}''\<close>

definition scan_reply_1 :: string where
  \<open>scan_reply_1 = ''{"jsonrpc":"2.0","id":1,"result":{"content":[{"type":"text","text":"[{'' @ [CHR 0x5C] @ ''"path'' @ [CHR 0x5C] @ ''":'' @ [CHR 0x5C] @ ''"/sessions/a.jsonl'' @ [CHR 0x5C] @ ''",'' @ [CHR 0x5C] @ ''"source'' @ [CHR 0x5C] @ ''":'' @ [CHR 0x5C] @ ''"claude'' @ [CHR 0x5C] @ ''"}]"}]}}''\<close>

definition post_reply_1 :: string where
  \<open>post_reply_1 = ''{"jsonrpc":"2.0","id":1,"result":{"content":[{"type":"text","text":"Posted: https://codeblog.ai/post/abc123"}]}}''\<close>

definition confirm_reply_2 :: string where
  \<open>confirm_reply_2 = ''{"jsonrpc":"2.0","id":2,"result":{"content":[{"type":"text","text":"Published: https://codeblog.ai/post/zzz999"}]}}''\<close>

definition sessions_text :: string where
  \<open>sessions_text = ''[{"path":"/sessions/a.jsonl","source":"claude"}]''\<close>

definition demo_table :: "(string \<times> json) list" where
  \<open>demo_table = [
        (init_reply_1,
           JDict [(''jsonrpc'', JStr ''2.0''), (''id'', JInt 1), (''result'', JDict [(''protocolVersion'', JStr ''2024-11-05''), (''capabilities'', JDict []), (''serverInfo'', JDict [(''name'', JStr ''codeblog-mcp''), (''version'', JStr ''1.0.0'')])])]),
        (reply_1,
           JDict [(''jsonrpc'', JStr ''2.0''), (''id'', JInt 1), (''result'', JDict [(''content'', JList [JDict [(''type'', JStr ''text''), (''text'', JStr ''pong'')]])])]),
        (reply_1_error,
           JDict [(''jsonrpc'', JStr ''2.0''), (''id'', JInt 1), (''error'', JDict [(''code'', JInt (-32000)), (''message'', JStr ''boom'')])]),
        (late_reply,
           JDict [(''jsonrpc'', JStr ''2.0''), (''id'', JInt 7), (''result'', JDict [])]),
        (log_notification,
           JDict [(''jsonrpc'', JStr ''2.0''), (''method'', JStr ''notifications/message''), (''params'', JDict [(''level'', JStr ''info''), (''data'', JStr ''ready'')])]),
        (progress_notification,
           JDict [(''jsonrpc'', JStr ''2.0''), (''method'', JStr ''notifications/progress''), (''params'', JDict [(''progress'', JInt 1)])]),
        (reply_2,
           JDict [(''jsonrpc'', JStr ''2.0''), (''id'', JInt 2), (''result'', JDict [(''content'', JList [JDict [(''type'', JStr ''text''), (''text'', JStr ''ok'')]])])]),
        (reply_3_error,
           JDict [(''jsonrpc'', JStr ''2.0''), (''id'', JInt 3), (''error'', JDict [(''code'', JInt (-32602)), (''message'', JStr ''invalid arguments'')])]),
        (reply_4,
           JDict [(''jsonrpc'', JStr ''2.0''), (''id'', JInt 4), (''result'', JDict [(''content'', JList [JDict [(''type'', JStr ''text''), (''text'', JStr ''ok'')]])])]),
        (reply_5,
           JDict [(''jsonrpc'', JStr ''2.0''), (''id'', JInt 5), (''result'', JDict [(''content'', JList [JDict [(''type'', JStr ''text''), (''text'', JStr ''ok'')]])])]),
        (scan_reply_1,
           JDict [(''jsonrpc'', JStr ''2.0''), (''id'', JInt 1), (''result'', JDict [(''content'', JList [JDict [(''type'', JStr ''text''), (''text'', JStr ''[{"path":"/sessions/a.jsonl","source":"claude"}]'')]])])]),
        (post_reply_1,
           JDict [(''jsonrpc'', JStr ''2.0''), (''id'', JInt 1), (''result'', JDict [(''content'', JList [JDict [(''type'', JStr ''text''), (''text'', JStr ''Posted: https://codeblog.ai/post/abc123'')]])])]),
        (confirm_reply_2,
           JDict [(''jsonrpc'', JStr ''2.0''), (''id'', JInt 2), (''result'', JDict [(''content'', JList [JDict [(''type'', JStr ''text''), (''text'', JStr ''Published: https://codeblog.ai/post/zzz999'')]])])]),
        (sessions_text,
           JList [JDict [(''path'', JStr ''/sessions/a.jsonl''), (''source'', JStr ''claude'')]])]\<close>

definition demo_loads :: "string \<Rightarrow> string + json" where
  "demo_loads s =
     (case map_of demo_table s of
        Some v \<Rightarrow> Inr v
      | None \<Rightarrow> Inl ''Expecting value: line 1 column 1 (char 0)'')"

definition demo_dumps :: "json \<Rightarrow> string" where
  "demo_dumps v = ''<json>''"

definition demo_repr :: "json \<Rightarrow> string" where
  "demo_repr v = ''<repr>''"

definition demo :: pylib where
  "demo = \<lparr>loads = demo_loads, dumps = demo_dumps, repr_of = demo_repr\<rparr>"

text \<open>A line as \<^verbatim>\<open>readline()\<close> returns it, with its line feed.\<close>

definition read :: "string \<Rightarrow> tick" where
  "read line = Line (line @ [CHR 0x0A])"

text \<open>A clock for the examples, and two small catalogs.\<close>

definition demo_clock :: "nat \<Rightarrow> stamps" where
  "demo_clock n =
     \<lparr>start_iso = ''2026-01-01T00:00:00'', end_iso = ''2026-01-01T00:00:01'', elapsed_ms = 12,
      issue_hex = ''0a1b2c3d'', matrix_now = ''2026-01-01T00:00:01''\<rparr>"


definition five_catalog :: "(string \<times> pydict \<times> string) list" where
  "five_catalog =
     [(''my_dashboard'', [], ''one''),
      (''codeblog_status'', [], ''two''),
      (''trending_topics'', [], ''three''),
      (''browse_by_tag'', [(''action'', JStr ''trending''), (''limit'', JInt 5)], ''four''),
      (''join_debate'', [(''action'', JStr ''list'')], ''five'')]"

definition post_catalog :: "(string \<times> pydict \<times> string) list" where
  "post_catalog =
     [(''post_to_codeblog'', [], ''post''),
      (''confirm_post'', [], ''confirm'')]"

definition demo_runner :: "tick list \<Rightarrow> runner" where
  "demo_runner events =
     \<lparr>client = new_client events, dynamic_context = seed_context None, run_log = [],
      matrix = demo_matrix\<rparr>"

section \<open>The session answers a request with its own response\<close>





text \<open>Decoding the lines of the examples.\<close>

lemmas demo_lines =
  init_reply_1_def reply_1_def reply_1_error_def late_reply_def log_notification_def progress_notification_def
  reply_2_def reply_3_error_def reply_4_def reply_5_def scan_reply_1_def post_reply_1_def
  confirm_reply_2_def sessions_text_def

lemmas demo_eval =
  demo_def demo_loads_def demo_table_def demo_dumps_def demo_repr_def read_def strip_def isspace_def
  demo_lines







section \<open>Masking\<close>


section \<open>The tracking matrix\<close>

lemma idx_Nil: "idx [] = Map.empty"
  by (simp add: idx_def)

lemma idx_snoc: "idx (header @ [name]) = (idx header)(name \<mapsto> length header)"
  by (simp add: idx_def enumerate_append_eq)

lemma idx_Some: "idx header name = Some i \<Longrightarrow> i < length header \<and> header ! i = name"
  by (induction header rule: rev_induct) (auto simp: idx_Nil idx_snoc nth_append split: if_splits)

lemma idx_in: "name \<in> set header \<Longrightarrow> \<exists>i. idx header name = Some i"
  by (induction header rule: rev_induct) (auto simp: idx_Nil idx_snoc)

lemma idx_inj: "idx header c = Some i \<Longrightarrow> idx header c' = Some i \<Longrightarrow> c = c'"
  using idx_Some by blast

lemmas col_defs =
  col_tool_def col_integrated_def col_mcp_pass_def col_dialogue_pass_def col_capsule_start_def
  col_capsule_end_def col_error_visible_def col_run_id_def col_result_def col_issue_def
  col_root_cause_def col_fix_def col_retest_def col_updated_def

lemma distinct_columns: "distinct (col_tool # status_columns)"
  by (simp add: status_columns_def col_defs)

lemma col_index:
  assumes "c \<in> set header" and "length row = length header"
  obtains i where "idx header c = Some i" and "i < length row" and "header ! i = c"
  using assms idx_in [of c header] idx_Some [of header c] by auto

lemma update_row_char:
  assumes cols: "list_all (\<lambda>c. c \<in> set header) status_columns"
    and len: "length row = length header"
  shows "\<exists>row'. update_row header rid p isu rc fx rt nw row = Inr row'
          \<and> length row' = length row
          \<and> list_all (\<lambda>(c, v). get_col header c row' = Inr v) (written_cells rid p isu rc fx rt nw)
          \<and> (\<exists>old. get_col header col_error_visible row = Inr old
                \<and> get_col header col_error_visible row' = Inr (visible_cell p isu rc old))
          \<and> (\<forall>c. c \<notin> set status_columns \<longrightarrow> get_col header c row' = get_col header c row)
          \<and> (\<forall>j<length row. (\<forall>c\<in>set status_columns. idx header c \<noteq> Some j) \<longrightarrow> row' ! j = row ! j)"
proof -
  from cols len obtain i1 where i1: "idx header col_integrated = Some i1" "i1 < length row" "header ! i1 = col_integrated"
    by (auto simp: status_columns_def elim: col_index)
  from cols len obtain i2 where i2: "idx header col_mcp_pass = Some i2" "i2 < length row" "header ! i2 = col_mcp_pass"
    by (auto simp: status_columns_def elim: col_index)
  from cols len obtain i3 where i3: "idx header col_dialogue_pass = Some i3" "i3 < length row" "header ! i3 = col_dialogue_pass"
    by (auto simp: status_columns_def elim: col_index)
  from cols len obtain i4 where i4: "idx header col_capsule_start = Some i4" "i4 < length row" "header ! i4 = col_capsule_start"
    by (auto simp: status_columns_def elim: col_index)
  from cols len obtain i5 where i5: "idx header col_capsule_end = Some i5" "i5 < length row" "header ! i5 = col_capsule_end"
    by (auto simp: status_columns_def elim: col_index)
  from cols len obtain i6 where i6: "idx header col_error_visible = Some i6" "i6 < length row" "header ! i6 = col_error_visible"
    by (auto simp: status_columns_def elim: col_index)
  from cols len obtain i7 where i7: "idx header col_run_id = Some i7" "i7 < length row" "header ! i7 = col_run_id"
    by (auto simp: status_columns_def elim: col_index)
  from cols len obtain i8 where i8: "idx header col_result = Some i8" "i8 < length row" "header ! i8 = col_result"
    by (auto simp: status_columns_def elim: col_index)
  from cols len obtain i9 where i9: "idx header col_issue = Some i9" "i9 < length row" "header ! i9 = col_issue"
    by (auto simp: status_columns_def elim: col_index)
  from cols len obtain i10 where i10: "idx header col_root_cause = Some i10" "i10 < length row" "header ! i10 = col_root_cause"
    by (auto simp: status_columns_def elim: col_index)
  from cols len obtain i11 where i11: "idx header col_fix = Some i11" "i11 < length row" "header ! i11 = col_fix"
    by (auto simp: status_columns_def elim: col_index)
  from cols len obtain i12 where i12: "idx header col_retest = Some i12" "i12 < length row" "header ! i12 = col_retest"
    by (auto simp: status_columns_def elim: col_index)
  from cols len obtain i13 where i13: "idx header col_updated = Some i13" "i13 < length row" "header ! i13 = col_updated"
    by (auto simp: status_columns_def elim: col_index)
  have "map ((!) header) [i1, i2, i3, i4, i5, i6, i7, i8, i9, i10, i11, i12, i13] = status_columns"
    by (simp add: status_columns_def i1 i2 i3 i4 i5 i6 i7 i8 i9 i10 i11 i12 i13)
  with distinct_columns have "distinct (map ((!) header) [i1, i2, i3, i4, i5, i6, i7, i8, i9, i10, i11, i12, i13])"
    by simp
  then have "distinct [i1, i2, i3, i4, i5, i6, i7, i8, i9, i10, i11, i12, i13]"
    by (simp only: distinct_map)
  then have ne: "i1 \<noteq> i2" "i1 \<noteq> i3" "i1 \<noteq> i4" "i1 \<noteq> i5" "i1 \<noteq> i6" "i1 \<noteq> i7" "i1 \<noteq> i8" "i1 \<noteq> i9" "i1 \<noteq> i10" "i1 \<noteq> i11" "i1 \<noteq> i12" "i1 \<noteq> i13" "i2 \<noteq> i3" "i2 \<noteq> i4" "i2 \<noteq> i5" "i2 \<noteq> i6" "i2 \<noteq> i7" "i2 \<noteq> i8" "i2 \<noteq> i9" "i2 \<noteq> i10" "i2 \<noteq> i11" "i2 \<noteq> i12" "i2 \<noteq> i13" "i3 \<noteq> i4" "i3 \<noteq> i5" "i3 \<noteq> i6" "i3 \<noteq> i7" "i3 \<noteq> i8" "i3 \<noteq> i9" "i3 \<noteq> i10" "i3 \<noteq> i11" "i3 \<noteq> i12" "i3 \<noteq> i13" "i4 \<noteq> i5" "i4 \<noteq> i6" "i4 \<noteq> i7" "i4 \<noteq> i8" "i4 \<noteq> i9" "i4 \<noteq> i10" "i4 \<noteq> i11" "i4 \<noteq> i12" "i4 \<noteq> i13" "i5 \<noteq> i6" "i5 \<noteq> i7" "i5 \<noteq> i8" "i5 \<noteq> i9" "i5 \<noteq> i10" "i5 \<noteq> i11" "i5 \<noteq> i12" "i5 \<noteq> i13" "i6 \<noteq> i7" "i6 \<noteq> i8" "i6 \<noteq> i9" "i6 \<noteq> i10" "i6 \<noteq> i11" "i6 \<noteq> i12" "i6 \<noteq> i13" "i7 \<noteq> i8" "i7 \<noteq> i9" "i7 \<noteq> i10" "i7 \<noteq> i11" "i7 \<noteq> i12" "i7 \<noteq> i13" "i8 \<noteq> i9" "i8 \<noteq> i10" "i8 \<noteq> i11" "i8 \<noteq> i12" "i8 \<noteq> i13" "i9 \<noteq> i10" "i9 \<noteq> i11" "i9 \<noteq> i12" "i9 \<noteq> i13" "i10 \<noteq> i11" "i10 \<noteq> i12" "i10 \<noteq> i13" "i11 \<noteq> i12" "i11 \<noteq> i13" "i12 \<noteq> i13"
    by simp_all
  define row' where "row' = row[i1 := cell_yes, i2 := (if p then cell_yes else cell_no), i3 := (if p then cell_yes else cell_no), i4 := (if p then cell_yes else cell_no), i5 := (if p then cell_yes else cell_no), i6 := visible_cell p isu rc (row ! i6), i7 := rid, i8 := (if p then passed_text else failed_text), i9 := isu, i10 := rc, i11 := fx, i12 := rt, i13 := nw]"
  have upd: "update_row header rid p isu rc fx rt nw row = Inr row'"
    using ne by (simp add: update_row_def set_col_def get_col_def and_then_def visible_cell_def row'_def
        i1 i2 i3 i4 i5 i6 i7 i8 i9 i10 i11 i12 i13)
  have len': "length row' = length row"
    by (simp add: row'_def)
  have cells: "list_all (\<lambda>(c, v). get_col header c row' = Inr v) (written_cells rid p isu rc fx rt nw)"
    using ne by (simp add: written_cells_def get_col_def row'_def i1 i2 i3 i4 i5 i6 i7 i8 i9 i10 i11 i12 i13)
  have vis: "get_col header col_error_visible row = Inr (row ! i6)
      \<and> get_col header col_error_visible row' = Inr (visible_cell p isu rc (row ! i6))"
    using ne by (simp add: get_col_def row'_def i1 i2 i3 i4 i5 i6 i7 i8 i9 i10 i11 i12 i13)
  have frame: "row' ! j = row ! j" if "\<forall>c\<in>set status_columns. idx header c \<noteq> Some j" for j
    using that by (auto simp: status_columns_def row'_def i1 i2 i3 i4 i5 i6 i7 i8 i9 i10 i11 i12 i13)
  have other: "get_col header c row' = get_col header c row" if "c \<notin> set status_columns" for c
  proof (cases "idx header c")
    case None
    then show ?thesis by (simp add: get_col_def)
  next
    case (Some j)
    have "idx header c' \<noteq> Some j" if "c' \<in> set status_columns" for c'
      using Some that \<open>c \<notin> set status_columns\<close> idx_inj [of header c' j c] by auto
    then have "row' ! j = row ! j" using frame by blast
    with Some len' show ?thesis by (simp add: get_col_def)
  qed
  from upd len' cells vis frame other show ?thesis by blast
qed


lemma update_rows_absent:
  "list_all (other_tool header tool) data \<Longrightarrow>
     update_rows header tool rid p isu rc fx rt nw data = Inr data"
  by (induction data) (auto simp: other_tool_def and_then_def split: sum.splits)


lemma update_rows_ok:
  assumes "list_all (\<lambda>c. c \<in> set header) (col_tool # status_columns)"
    and "list_all (\<lambda>row. length row = length header) data"
  shows "\<exists>data'. update_rows header tool rid p isu rc fx rt nw data = Inr data'
           \<and> list_all (\<lambda>row. length row = length header) data' \<and> length data' = length data"
  using assms(2)
proof (induction data)
  case Nil
  then show ?case by simp
next
  case (Cons row data)
  then obtain data' where data': "update_rows header tool rid p isu rc fx rt nw data = Inr data'"
    "list_all (\<lambda>row. length row = length header) data'" "length data' = length data"
    by auto
  from assms(1) Cons.prems obtain i where i: "idx header col_tool = Some i" "i < length row"
    by (auto elim: col_index)
  from assms(1) Cons.prems update_row_char [of header row rid p isu rc fx rt nw]
  obtain row' where row': "update_row header rid p isu rc fx rt nw row = Inr row'" "length row' = length row"
    by auto
  show ?case
    using data' i row' Cons.prems by (simp add: get_col_def and_then_def)
qed

lemma update_matrix_ok:
  assumes "matrix_ok m"
  shows "\<exists>m'. update_matrix m tool rid p isu rc fx rt nw = Inr m' \<and> matrix_ok m' \<and> length m' = length m"
proof -
  from assms obtain header data where m: "m = header # data"
    and cols: "list_all (\<lambda>c. c \<in> set header) (col_tool # status_columns)"
    and rows: "list_all (\<lambda>row. length row = length header) data"
    by (cases m) (auto simp: matrix_ok_def)
  from update_rows_ok [OF cols rows, of tool rid p isu rc fx rt nw] obtain data'
    where "update_rows header tool rid p isu rc fx rt nw data = Inr data'"
      "list_all (\<lambda>row. length row = length header) data'" "length data' = length data"
    by blast
  with m cols show ?thesis
    by (simp add: update_matrix_def and_then_def matrix_ok_def)
qed



text \<open>
  Claim C7, as the code has it. When no row of the table is keyed by the operation name
  (every row has a key cell, and it names another operation), \<^verbatim>\<open>update_matrix\<close> raises
  nothing: it writes the table back as it was. No row is added, and no error reports the
  unknown operation.
\<close>

theorem update_matrix_unknown_tool:
  assumes "list_all (other_tool header tool) data"
  shows "update_matrix (header # data) tool rid p isu rc fx rt nw = Inr (header # data)"
  using assms by (simp add: update_matrix_def update_rows_absent and_then_def)

lemmas demo_matrix_eval =
  demo_matrix_def demo_header_def status_columns_def col_defs other_tool_def get_col_def idx_def

theorem update_matrix_unknown_tool_witness:
  "update_matrix demo_matrix ''no_such_tool'' ''RUN-1'' True [] [] [] cell_yes ''2026-01-01T00:00:00''
     = Inr demo_matrix"
proof -
  have "list_all (other_tool demo_header ''no_such_tool'') (tl demo_matrix)"
    by (simp add: demo_matrix_eval)
  from update_matrix_unknown_tool [OF this]
  show ?thesis by (simp add: demo_matrix_def)
qed

text \<open>
  The claim as stated fails: the example matrix has no row for \<^verbatim>\<open>delete_post\<close>, and the
  update for that operation succeeds, leaving the matrix as it was.
\<close>

theorem update_matrix_silent_counterexample:
  "update_matrix demo_matrix ''delete_post'' ''RUN-1'' False ''failed'' ''cause'' ''fix'' cell_no
       ''2026-01-01T00:00:00''
     = Inr demo_matrix"
  by (simp add: update_matrix_def and_then_def demo_matrix_eval)



section \<open>The scenario runner\<close>

lemma rpc_request_id: "request_id (snd (rpc L method params t c)) = request_id c + 1"
  by (simp add: rpc_def Let_def split: prod.splits)

lemma call_tool_request_id: "request_id (snd (call_tool L name a c)) = request_id c + 1"
  by (simp add: call_tool_def rpc_request_id)

lemma attempt_client: "snd (snd (attempt L tool a ctx c)) = snd (call_tool L tool a c)"
  by (simp add: attempt_def split: prod.splits sum.splits)

lemma run_op_ok:
  assumes "matrix_ok (matrix s)"
  shows "\<exists>s'. run_op L st rid rn (tool, base_args, scenario) s = (None, s')
          \<and> matrix_ok (matrix s') \<and> length (matrix s') = length (matrix s)
          \<and> client s' = snd (call_tool L tool (resolve_args L tool base_args (dynamic_context s)) (client s))
          \<and> dynamic_context s' = fst (snd (attempt L tool (resolve_args L tool base_args (dynamic_context s)) (dynamic_context s) (client s)))
          \<and> run_log s' = run_log s @
               [log_row L st rid rn tool (resolve_args L tool base_args (dynamic_context s)) scenario
                  (fst (attempt L tool (resolve_args L tool base_args (dynamic_context s)) (dynamic_context s) (client s)))]"
proof -
  let ?a = "resolve_args L tool base_args (dynamic_context s)"
  obtain v ctx c where att: "attempt L tool ?a (dynamic_context s) (client s) = (v, ctx, c)"
    by (cases "attempt L tool ?a (dynamic_context s) (client s)") auto
  from update_matrix_ok [OF assms, of tool rid "passed v" "issue v" "root_cause v" "fix_action v" "retest_cell v" "matrix_now st"]
  obtain m' where m': "update_matrix (matrix s) tool rid (passed v) (issue v) (root_cause v) (fix_action v)
                         (retest_cell v) (matrix_now st) = Inr m'" "matrix_ok m'" "length m' = length (matrix s)"
    by blast
  from attempt_client [of L tool ?a "dynamic_context s" "client s"] att
  have c: "c = snd (call_tool L tool ?a (client s))" by simp
  show ?thesis
    using att m' c by (simp add: run_op_def Let_def append_run_log_def)
qed

lemma run_ops_append:
  "run_ops L clock rid rn n (xs @ ys) s =
     (case run_ops L clock rid rn n xs s of
        (Some ex, s') \<Rightarrow> (Some ex, s')
      | (None, s') \<Rightarrow> run_ops L clock rid rn (n + length xs) ys s')"
  by (induction xs arbitrary: n s) (auto split: prod.splits option.splits)

lemma run_ops_ok:
  assumes "matrix_ok (matrix s)"
  shows "\<exists>s' rows. run_ops L clock rid rn n ds s = (None, s')
          \<and> matrix_ok (matrix s')
          \<and> run_log s' = run_log s @ rows
          \<and> map (\<lambda>row. row ! 4) rows = map fst ds
          \<and> request_id (client s') = request_id (client s) + int (length ds)"
  using assms
proof (induction ds arbitrary: n s)
  case Nil
  then show ?case by simp
next
  case (Cons d ds)
  obtain tool base_args scenario where d: "d = (tool, base_args, scenario)" by (cases d) auto
  from run_op_ok [OF Cons.prems, of L "clock n" rid rn tool base_args scenario] obtain s1 row
    where s1: "run_op L (clock n) rid rn (tool, base_args, scenario) s = (None, s1)"
      "matrix_ok (matrix s1)"
      "client s1 = snd (call_tool L tool (resolve_args L tool base_args (dynamic_context s)) (client s))"
      "run_log s1 = run_log s @ [row]"
      "row = log_row L (clock n) rid rn tool (resolve_args L tool base_args (dynamic_context s)) scenario
                  (fst (attempt L tool (resolve_args L tool base_args (dynamic_context s)) (dynamic_context s) (client s)))"
    by blast
  from Cons.IH [OF s1(2), of "Suc n"] obtain s' rows where s':
    "run_ops L clock rid rn (Suc n) ds s1 = (None, s')" "matrix_ok (matrix s')"
    "run_log s' = run_log s1 @ rows"
    "map (\<lambda>row. row ! 4) rows = map fst ds"
    "request_id (client s') = request_id (client s1) + int (length ds)"
    by blast
  have run: "run_ops L clock rid rn n (d # ds) s = (None, s')"
    using d s1(1) s'(1) by simp
  have log: "run_log s' = run_log s @ (row # rows)"
    using s1(4) s'(3) by simp
  have names: "map (\<lambda>row. row ! 4) (row # rows) = map fst (d # ds)"
    using s'(4) s1(5) d by (simp add: log_row_def)
  have ids: "request_id (client s') = request_id (client s) + int (length (d # ds))"
    using s'(5) s1(3) by (simp add: call_tool_request_id)
  from run s'(2) log names ids show ?case by blast
qed


lemma map_of_dict_set: "map_of (dict_set d k v) = (map_of d)(k \<mapsto> v)"
  by (induction d) auto

lemma dict_has_set: "dict_has (dict_set d k v) k' = (k' = k \<or> dict_has d k')"
  by (simp add: dict_has_def map_of_dict_set)

lemma dict_get_set: "dict_get (dict_set d k v) k' dflt = (if k' = k then v else dict_get d k' dflt)"
  by (simp add: dict_get_def map_of_dict_set)

lemmas rule_defs =
  scan_rule_def browse_rule_def preview_rule_def stats_rule_def post_rule_def confirm_rule_def

lemma extract_context_keeps:
  "dict_has ctx k \<Longrightarrow> dict_has (extract_context L tool txt ctx) k"
  by (simp add: extract_context_def rule_defs dict_has_set split: sum.splits json.splits list.splits)

lemma extract_context_own_post_id:
  assumes "pid \<noteq> []" and "dict_get ctx ''own_post_id'' JNull = JStr pid" and "tool \<noteq> ''post_to_codeblog''"
  shows "dict_get (extract_context L tool txt ctx) ''own_post_id'' JNull = JStr pid"
  using assms
  by (simp add: extract_context_def rule_defs dict_get_set split: sum.splits json.splits list.splits)

lemma extract_context_post:
  "parse_post_id txt \<noteq> [] \<Longrightarrow>
     dict_get (extract_context L ''post_to_codeblog'' txt ctx) ''own_post_id'' JNull = JStr (parse_post_id txt)"
  by (simp add: extract_context_def rule_defs dict_get_set)

lemma attempt_context:
  "fst (snd (attempt L tool a ctx c)) = ctx
     \<or> (\<exists>txt. fst (snd (attempt L tool a ctx c)) = extract_context L tool txt ctx)"
  by (auto simp: attempt_def split: prod.splits sum.splits)

lemma run_op_context:
  "run_op L st rid rn (tool, base_args, scenario) s = (r, s') \<Longrightarrow>
     dynamic_context s' =
       fst (snd (attempt L tool (resolve_args L tool base_args (dynamic_context s)) (dynamic_context s) (client s)))"
  by (auto simp: run_op_def Let_def split: prod.splits sum.splits)

lemma run_ops_context:
  assumes "run_ops L clock rid rn n ds s = (r, s')"
  shows "(\<forall>k. dict_has (dynamic_context s) k \<longrightarrow> dict_has (dynamic_context s') k)
       \<and> (\<forall>pid. pid \<noteq> [] \<and> dict_get (dynamic_context s) ''own_post_id'' JNull = JStr pid
                 \<and> ''post_to_codeblog'' \<notin> fst ` set ds
             \<longrightarrow> dict_get (dynamic_context s') ''own_post_id'' JNull = JStr pid)"
  using assms
proof (induction ds arbitrary: n s)
  case Nil
  then show ?case by simp
next
  case (Cons d ds)
  obtain tool base_args scenario where d: "d = (tool, base_args, scenario)" by (cases d) auto
  obtain r1 s1 where s1: "run_op L (clock n) rid rn (tool, base_args, scenario) s = (r1, s1)"
    by (cases "run_op L (clock n) rid rn (tool, base_args, scenario) s") auto
  let ?ctx1 = "fst (snd (attempt L tool (resolve_args L tool base_args (dynamic_context s)) (dynamic_context s) (client s)))"
  have c1: "dynamic_context s1 = ?ctx1" using run_op_context [OF s1] .
  have alt: "?ctx1 = dynamic_context s \<or> (\<exists>txt. ?ctx1 = extract_context L tool txt (dynamic_context s))"
    by (rule attempt_context)
  have keep1: "dict_has (dynamic_context s1) k" if "dict_has (dynamic_context s) k" for k
    using alt c1 that by (auto simp: extract_context_keeps)
  have own1: "dict_get (dynamic_context s1) ''own_post_id'' JNull = JStr pid"
    if "pid \<noteq> []" "dict_get (dynamic_context s) ''own_post_id'' JNull = JStr pid" "tool \<noteq> ''post_to_codeblog''" for pid
    using alt c1 that by (auto simp: extract_context_own_post_id)
  show ?case
  proof (cases r1)
    case None
    with Cons.prems d s1 have "run_ops L clock rid rn (Suc n) ds s1 = (r, s')" by simp
    from Cons.IH [OF this] keep1 own1 d show ?thesis by auto
  next
    case (Some ex)
    with Cons.prems d s1 have "s' = s1" by simp
    with keep1 own1 d show ?thesis by auto
  qed
qed




lemma call_tool_stdin:
  "\<not> proc_exited c \<Longrightarrow>
     proc_stdin (snd (call_tool L name a c)) =
       proc_stdin c @ [dumps L (request (request_id c) ''tools/call''
                                 [(''name'', JStr name), (''arguments'', JDict a)]) @ [CHR 0x0A]]"
  by (simp add: call_tool_def rpc_def Let_def split: prod.splits)

lemma extract_context_other:
  "tool \<notin> {''scan_sessions'', ''browse_posts'', ''preview_post'', ''collect_daily_stats'',
            ''post_to_codeblog'', ''confirm_post''} \<Longrightarrow>
     extract_context L tool txt ctx = ctx"
  by (simp add: extract_context_def rule_defs)

lemmas args_defs =
  resolve_args_def session_args_def post_args_def own_post_args_def confirm_args_def setup_args_def
  report_args_def

lemma resolve_args_scan: "resolve_args L ''scan_sessions'' base_args ctx = base_args"
  by (simp add: args_defs)

lemma resolve_args_read:
  "resolve_args L ''read_session'' base_args ctx =
     (if truthy (dict_get ctx ''session_path'' JNull) \<and> truthy (dict_get ctx ''session_source'' JNull)
      then dict_update base_args
             [(''path'', dict_get ctx ''session_path'' JNull), (''source'', dict_get ctx ''session_source'' JNull)]
      else [])"
  by (simp add: args_defs)

lemma extract_context_scan:
  "extract_context L ''scan_sessions'' txt ctx = scan_rule L ''scan_sessions'' txt ctx"
  by (simp add: extract_context_def rule_defs)

lemma take_2_TOOLS:
  "\<exists>l1 l2. take 2 TOOLS = [(''scan_sessions'', [(''limit'', JInt 5)], l1), (''read_session'', [], l2)]"
  by (simp add: TOOLS_def)

text \<open>
  Claim C6. A pass starts with the seeded context, and \<^verbatim>\<open>scan_sessions\<close> and
  \<^verbatim>\<open>read_session\<close> are the first two operations of \<^verbatim>\<open>TOOLS\<close>. Let the scan call return a
  result whose text is \<open>txt\<close>. Then the request written for \<^verbatim>\<open>read_session\<close> carries these
  arguments: when \<open>txt\<close> decodes to a list whose first element is a mapping with a path and a
  source (both true values), exactly the two members \<^verbatim>\<open>path\<close> and \<^verbatim>\<open>source\<close> with those values;
  in every other case the empty mapping. When the arguments are empty they are empty for
  every argument template of the operation, not only for the empty one of \<^verbatim>\<open>TOOLS\<close>.
\<close>

theorem scan_result_threads_into_read:
  assumes "matrix_ok (matrix s)"
    and "dynamic_context s = seed_context creds"
    and "call_tool L ''scan_sessions'' [(''limit'', JInt 5)] (client s) = (Inr result, c1)"
    and "extract_text L result = Inr txt"
    and "\<not> proc_exited c1"
  shows "\<exists>s2 args.
           run_ops L clock rid rn 0 (take 2 TOOLS) s = (None, s2)
         \<and> proc_stdin (client s2) =
             proc_stdin c1 @ [dumps L (request (request_id c1) ''tools/call''
                                       [(''name'', JStr ''read_session''), (''arguments'', JDict args)])
                              @ [CHR 0x0A]]
         \<and> args = (case loads L txt of
                      Inr (JList (JDict first # rest)) \<Rightarrow>
                        if truthy (dict_get first ''path'' JNull) \<and> truthy (dict_get first ''source'' JNull)
                        then [(''path'', dict_get first ''path'' JNull),
                              (''source'', dict_get first ''source'' JNull)]
                        else []
                    | _ \<Rightarrow> [])
         \<and> (\<forall>template. args = [] \<longrightarrow> resolve_args L ''read_session'' template (dynamic_context s2) = [])"
proof -
  from take_2_TOOLS obtain l1 l2
    where cat: "take 2 TOOLS = [(''scan_sessions'', [(''limit'', JInt 5)], l1), (''read_session'', [], l2)]"
    by blast
  let ?ctx = "dynamic_context s"
  let ?ctx1 = "extract_context L ''scan_sessions'' txt ?ctx"
  let ?args = "resolve_args L ''read_session'' [] ?ctx1"
  from assms(4) obtain d where res: "result = JDict d"
    by (cases result) (auto simp: extract_text_def)
  have att: "attempt L ''scan_sessions'' [(''limit'', JInt 5)] ?ctx (client s)
               = (succeeded txt (dict_get d ''isError'' JNull), ?ctx1, c1)"
    using assms(3,4) res by (simp add: attempt_def)
  from run_op_ok [OF assms(1), of L "clock 0" rid rn "''scan_sessions''" "[(''limit'', JInt 5)]" l1] att
  obtain s1 where s1: "run_op L (clock 0) rid rn (''scan_sessions'', [(''limit'', JInt 5)], l1) s = (None, s1)"
      "matrix_ok (matrix s1)" "client s1 = c1" "dynamic_context s1 = ?ctx1"
    using assms(3) by (auto simp: resolve_args_scan)
  from run_op_ok [OF s1(2), of L "clock 1" rid rn "''read_session''" "[]" l2]
  obtain s2 where s2: "run_op L (clock 1) rid rn (''read_session'', [], l2) s1 = (None, s2)"
      "client s2 = snd (call_tool L ''read_session'' ?args c1)"
      "dynamic_context s2 = fst (snd (attempt L ''read_session'' ?args ?ctx1 c1))"
    using s1(3,4) by auto
  have run: "run_ops L clock rid rn 0 (take 2 TOOLS) s = (None, s2)"
    using cat s1(1) s2(1) by simp
  have stdin: "proc_stdin (client s2) =
             proc_stdin c1 @ [dumps L (request (request_id c1) ''tools/call''
                                       [(''name'', JStr ''read_session''), (''arguments'', JDict ?args)])
                              @ [CHR 0x0A]]"
    using s2(2) assms(5) by (simp add: call_tool_stdin)
  have seed: "\<not> truthy (dict_get ?ctx ''session_path'' JNull) \<or> \<not> truthy (dict_get ?ctx ''session_source'' JNull)"
    using assms(2) by (simp add: seed_context_def dict_get_def split: option.splits)
  have args: "?args = (case loads L txt of
                      Inr (JList (JDict first # rest)) \<Rightarrow>
                        if truthy (dict_get first ''path'' JNull) \<and> truthy (dict_get first ''source'' JNull)
                        then [(''path'', dict_get first ''path'' JNull),
                              (''source'', dict_get first ''source'' JNull)]
                        else []
                    | _ \<Rightarrow> [])"
    using seed
    by (auto simp: resolve_args_read extract_context_scan scan_rule_def dict_get_set
        split: sum.splits json.splits list.splits)
  have ctx2: "dynamic_context s2 = ?ctx1"
    using attempt_context [of L "''read_session''" ?args ?ctx1 c1] s2(3)
    by (auto simp: extract_context_other)
  have empty: "resolve_args L ''read_session'' template (dynamic_context s2) = []" if "?args = []" for template
    using that ctx2 by (auto simp: resolve_args_read split: if_splits)
  from run stdin args empty show ?thesis by blast
qed

text \<open>
  The theorem at the example server, whose scan result lists one session: the second
  request carries the path and the source of that session.
\<close>

theorem scan_result_threads_into_read_witness:
  "\<exists>s2. run_ops demo demo_clock ''RUN-1'' 1 0 (take 2 TOOLS) (demo_runner [read scan_reply_1, read reply_2])
            = (None, s2)
       \<and> proc_stdin (client s2) =
           [dumps demo (request 1 ''tools/call''
                          [(''name'', JStr ''scan_sessions''), (''arguments'', JDict [(''limit'', JInt 5)])])
              @ [CHR 0x0A],
            dumps demo (request 2 ''tools/call''
                          [(''name'', JStr ''read_session''),
                           (''arguments'', JDict [(''path'', JStr ''/sessions/a.jsonl''),
                                                  (''source'', JStr ''claude'')])])
              @ [CHR 0x0A]]"
proof -
  let ?s = "demo_runner [read scan_reply_1, read reply_2]"
  let ?result = "JDict [(''content'', JList [JDict [(''type'', JStr ''text''), (''text'', JStr sessions_text)]])]"
  let ?c1 = "\<lparr>request_id = 2,
              proc_stdin = [dumps demo (request 1 ''tools/call''
                              [(''name'', JStr ''scan_sessions''), (''arguments'', JDict [(''limit'', JInt 5)])])
                            @ [CHR 0x0A]],
              proc_stdout = [read reply_2], proc_exited = False\<rparr>"
  have 1: "matrix_ok (matrix ?s)"
    by (simp add: demo_runner_def demo_matrix_def matrix_ok_def demo_header_def status_columns_def)
  have 2: "dynamic_context ?s = seed_context None"
    by (simp add: demo_runner_def)
  have 3: "call_tool demo ''scan_sessions'' [(''limit'', JInt 5)] (client ?s) = (Inr ?result, ?c1)"
    by (simp add: demo_runner_def call_tool_def rpc_def new_client_def demo_eval dict_get_def dict_has_def)
  have 4: "extract_text demo ?result = Inr sessions_text"
    by (simp add: extract_text_def dict_get_def strip_def isspace_def sessions_text_def)
  have 5: "\<not> proc_exited ?c1" by simp
  have 6: "loads demo sessions_text
             = Inr (JList [JDict [(''path'', JStr ''/sessions/a.jsonl''), (''source'', JStr ''claude'')]])"
    by (simp add: demo_eval)
  from scan_result_threads_into_read [OF 1 2 3 4 5, of demo_clock "''RUN-1''" 1]
  show ?thesis
    by (auto simp: 6 dict_get_def)
qed

section \<open>The context of a pass\<close>

text \<open>
  Claim C10. Whatever the catalog and the server do, an entry of the context is never
  removed during the loop over the catalog: a key the context has before is a key it has
  after. When \<^verbatim>\<open>post_to_codeblog\<close> finds a post identifier in its result, its extraction
  stores it under \<^verbatim>\<open>own_post_id\<close>; once the context holds such an identifier (a string that
  is not empty), no later operation other than \<^verbatim>\<open>post_to_codeblog\<close> itself changes it, so
  the extraction of a later \<^verbatim>\<open>confirm_post\<close> never writes over it.
\<close>

theorem context_entries_persist:
  assumes "run_ops L clock rid rn n ds s = (r, s')"
  shows "(\<forall>k. dict_has (dynamic_context s) k \<longrightarrow> dict_has (dynamic_context s') k)
       \<and> (\<forall>pid. pid \<noteq> [] \<and> dict_get (dynamic_context s) ''own_post_id'' JNull = JStr pid
                 \<and> ''post_to_codeblog'' \<notin> fst ` set ds
             \<longrightarrow> dict_get (dynamic_context s') ''own_post_id'' JNull = JStr pid)
       \<and> (\<forall>txt ctx. parse_post_id txt \<noteq> [] \<longrightarrow>
             dict_get (extract_context L ''post_to_codeblog'' txt ctx) ''own_post_id'' JNull
               = JStr (parse_post_id txt))"
  using run_ops_context [OF assms] extract_context_post by simp

lemma post_text: "parse_post_id ''Posted: https://codeblog.ai/post/abc123'' = ''abc123''"
  by code_simp

text \<open>
  The theorem at a run of \<^verbatim>\<open>post_to_codeblog\<close> and \<^verbatim>\<open>confirm_post\<close>: the first result names
  the post \<^verbatim>\<open>abc123\<close>, the second the post \<^verbatim>\<open>zzz999\<close>, and the context keeps \<^verbatim>\<open>abc123\<close>.
\<close>

theorem context_entries_persist_witness:
  "dict_has (dynamic_context (snd (run_ops demo demo_clock ''RUN-1'' 1 0 post_catalog
                                     (demo_runner [read post_reply_1, read confirm_reply_2])))) ''qa_email''
   \<and> dict_get (dynamic_context (snd (run_ops demo demo_clock ''RUN-1'' 1 1 (tl post_catalog)
               (snd (run_ops demo demo_clock ''RUN-1'' 1 0 [hd post_catalog]
                       (demo_runner [read post_reply_1, read confirm_reply_2]))))))
        ''own_post_id'' JNull = JStr ''abc123''
   \<and> dict_get (extract_context demo ''post_to_codeblog'' ''Posted: https://codeblog.ai/post/abc123'' [])
        ''own_post_id'' JNull = JStr ''abc123''"
proof -
  let ?s = "demo_runner [read post_reply_1, read confirm_reply_2]"
  let ?s1 = "snd (run_ops demo demo_clock ''RUN-1'' 1 0 [hd post_catalog] ?s)"
  have a: "run_ops demo demo_clock ''RUN-1'' 1 0 post_catalog ?s
             = (fst (run_ops demo demo_clock ''RUN-1'' 1 0 post_catalog ?s),
                snd (run_ops demo demo_clock ''RUN-1'' 1 0 post_catalog ?s))"
    by (rule prod.collapse [symmetric])
  have b: "run_ops demo demo_clock ''RUN-1'' 1 1 (tl post_catalog) ?s1
             = (fst (run_ops demo demo_clock ''RUN-1'' 1 1 (tl post_catalog) ?s1),
                snd (run_ops demo demo_clock ''RUN-1'' 1 1 (tl post_catalog) ?s1))"
    by (rule prod.collapse [symmetric])
  have h1: "dict_has (dynamic_context ?s) ''qa_email''"
    by (simp add: demo_runner_def seed_context_def dict_has_def)
  have h2: "dict_get (dynamic_context ?s1) ''own_post_id'' JNull = JStr ''abc123''"
    by code_simp
  have h3: "''post_to_codeblog'' \<notin> fst ` set (tl post_catalog)"
    by (simp add: post_catalog_def)
  have n: "''abc123'' \<noteq> []" by simp
  have h4: "parse_post_id ''Posted: https://codeblog.ai/post/abc123'' \<noteq> []"
    unfolding post_text by simp
  have 1: "dict_has (dynamic_context (snd (run_ops demo demo_clock ''RUN-1'' 1 0 post_catalog ?s))) ''qa_email''"
    by (rule context_entries_persist [OF a, THEN conjunct1, rule_format, OF h1])
  have 2: "dict_get (dynamic_context (snd (run_ops demo demo_clock ''RUN-1'' 1 1 (tl post_catalog) ?s1)))
             ''own_post_id'' JNull = JStr ''abc123''"
    by (rule context_entries_persist [OF b, THEN conjunct2, THEN conjunct1, rule_format,
          OF conjI [OF n conjI [OF h2 h3]]])
  have "dict_get (extract_context demo ''post_to_codeblog'' ''Posted: https://codeblog.ai/post/abc123'' [])
             ''own_post_id'' JNull = JStr (parse_post_id ''Posted: https://codeblog.ai/post/abc123'')"
    by (rule context_entries_persist [OF a, THEN conjunct2, THEN conjunct2, rule_format, OF h4])
  then have 3: "dict_get (extract_context demo ''post_to_codeblog'' ''Posted: https://codeblog.ai/post/abc123'' [])
             ''own_post_id'' JNull = JStr ''abc123''"
    by (simp only: post_text)
  show ?thesis by (rule conjI [OF 1 conjI [OF 2 3]])
qed

section \<open>The run log\<close>





section \<open>A child that exits during a pass\<close>




end
